theory Spec2Isabelle
  imports Complex_Main "HOL-Library.Word"
begin

section \<open>Tensors, devices and errors\<close>

text \<open>
  The notebooks are sequences of script cells over PyTorch and torchvision objects.  A
  tensor is modelled by the device it resides on and its contents; an exception raised
  by the interpreter or by a library call is a value of type \<open>error\<close>.
\<close>

datatype device = CPU | CUDA

datatype error =
  TypeError | RuntimeError | ValueError | IndexError | StopIteration | ZeroDivisionError

record 'a tensor =
  device :: device
  dat :: 'a

text \<open>The error monad of a single expression: the first raise wins.\<close>

definition sbind :: "error + 'a \<Rightarrow> ('a \<Rightarrow> error + 'b) \<Rightarrow> error + 'b" where
  "sbind m f = (case m of Inl e \<Rightarrow> Inl e | Inr a \<Rightarrow> f a)"

section \<open>The transform pipeline\<close>

text \<open>
  \<^verbatim>\<open>transform = transforms.Compose(
      [transforms.ToTensor(),
       transforms.Normalize((0.5, 0.5, 0.5), (0.5, 0.5, 0.5))])\<close>

  CIFAR10 hands every sample to the transform as an RGB picture: rows of pixels, each
  pixel three bytes.  \<open>ToTensor\<close> turns it into a float tensor of layout
  channel, row, column with every byte divided by 255; \<open>Normalize\<close> subtracts the
  channel's mean and divides by the channel's standard deviation.  Float values are
  modelled by exact reals.
\<close>

type_synonym pixel = "8 word \<times> 8 word \<times> 8 word"
type_synonym pil_image = "pixel list list"
type_synonym image = "real list list list"

datatype pic = PIL pil_image | Tens "image tensor"

datatype transform = ToTensor | Normalize "real list" "real list" | Compose "transform list"

definition red :: "pixel \<Rightarrow> 8 word" where "red p = fst p"
definition green :: "pixel \<Rightarrow> 8 word" where "green p = fst (snd p)"
definition blue :: "pixel \<Rightarrow> 8 word" where "blue p = snd (snd p)"

definition byte_to_float :: "8 word \<Rightarrow> real" where
  "byte_to_float b = real (unat b) / 255"

definition to_tensor :: "pic \<Rightarrow> error + pic" where
  "to_tensor p = (case p of
      PIL img \<Rightarrow> Inr (Tens \<lparr>device = CPU,
        dat = map (\<lambda>band. map (map (\<lambda>px. byte_to_float (band px))) img) [red, green, blue]\<rparr>)
    | Tens t \<Rightarrow> Inl TypeError)"

definition normalize_tensor :: "real list \<Rightarrow> real list \<Rightarrow> pic \<Rightarrow> error + pic" where
  "normalize_tensor mean std p = (case p of
      PIL img \<Rightarrow> Inl TypeError
    | Tens t \<Rightarrow>
        if 0 \<in> set std then Inl ValueError
        else if length (dat t) = length mean \<and> length mean = length std
        then Inr (Tens (t\<lparr>dat := map (\<lambda>(ch, m, s). map (map (\<lambda>x. (x - m) / s)) ch)
                                  (zip (dat t) (zip mean std))\<rparr>))
        else Inl RuntimeError)"

fun apply_transform :: "transform \<Rightarrow> pic \<Rightarrow> error + pic"
  and apply_all :: "transform list \<Rightarrow> pic \<Rightarrow> error + pic" where
  "apply_transform ToTensor p = to_tensor p"
| "apply_transform (Normalize mean std) p = normalize_tensor mean std p"
| "apply_transform (Compose ts) p = apply_all ts p"
| "apply_all [] p = Inr p"
| "apply_all (t # ts) p = sbind (apply_transform t p) (apply_all ts)"

definition transform :: transform where
  "transform = Compose [ToTensor, Normalize [0.5, 0.5, 0.5] [0.5, 0.5, 0.5]]"

text \<open>
  \<^verbatim>\<open>trainset = torchvision.datasets.CIFAR10(root='./data', train=True,
                                          download=True, transform=transform)
  testset = torchvision.datasets.CIFAR10(root='./data', train=False,
                                         download=True, transform=transform)\<close>
\<close>

record dataset =
  root_dir :: string
  train :: bool
  download :: bool
  ds_transform :: transform

definition trainset :: dataset where
  "trainset = \<lparr>root_dir = ''./data'', train = True, download = True, ds_transform = transform\<rparr>"

definition testset :: dataset where
  "testset = \<lparr>root_dir = ''./data'', train = False, download = True, ds_transform = transform\<rparr>"

text \<open>What a dataset serves for a stored picture: the picture under the dataset's transform.\<close>

definition getitem :: "dataset \<Rightarrow> pil_image \<Rightarrow> error + pic" where
  "getitem ds img = apply_transform (ds_transform ds) (PIL img)"

text \<open>The first line of \<open>imshow\<close>: \<^verbatim>\<open>img = img / 2 + 0.5     # unnormalize\<close>.\<close>

definition tensor_div :: "image tensor \<Rightarrow> real \<Rightarrow> image tensor" where
  "tensor_div t c = t\<lparr>dat := map (map (map (\<lambda>x. x / c))) (dat t)\<rparr>"

definition tensor_add :: "image tensor \<Rightarrow> real \<Rightarrow> image tensor" where
  "tensor_add t c = t\<lparr>dat := map (map (map (\<lambda>x. x + c))) (dat t)\<rparr>"

definition unnormalize :: "image tensor \<Rightarrow> image tensor" where
  "unnormalize img = tensor_add (tensor_div img 2) 0.5"

section \<open>The network\<close>

text \<open>
  \<^verbatim>\<open>class Net(nn.Module):
      def __init__(self):
          super(Net, self).__init__()
          self.conv1 = nn.Conv2d(3, 6, 5)
          self.pool = nn.MaxPool2d(2, 2)
          self.conv2 = nn.Conv2d(6, 16, 5)
          self.fc1 = nn.Linear(16 * 5 * 5, 120)
          self.fc2 = nn.Linear(120, 84)
          self.fc3 = nn.Linear(84, 10)\<close>

  A library module is its constructor with the arguments the notebook passes; a
  convolution and a linear layer own learnable parameters (weight and bias, of the
  abstract type \<open>'p\<close>), a pooling module owns none.  The library draws the initial
  parameters at random, so \<open>Net_init\<close> takes them as arguments.
\<close>

datatype 'p nn_module = Conv2d nat nat nat 'p | MaxPool2d nat nat | Linear nat nat 'p

record 'p Net =
  conv1 :: "'p nn_module"
  pool :: "'p nn_module"
  conv2 :: "'p nn_module"
  fc1 :: "'p nn_module"
  fc2 :: "'p nn_module"
  fc3 :: "'p nn_module"

definition Net_init :: "'p \<Rightarrow> 'p \<Rightarrow> 'p \<Rightarrow> 'p \<Rightarrow> 'p \<Rightarrow> 'p Net" where
  "Net_init p1 p2 p3 p4 p5 =
     \<lparr>conv1 = Conv2d 3 6 5 p1, pool = MaxPool2d 2 2, conv2 = Conv2d 6 16 5 p2,
      fc1 = Linear (16 * 5 * 5) 120 p3, fc2 = Linear 120 84 p4, fc3 = Linear 84 10 p5\<rparr>"

text \<open>
  \<open>net.parameters()\<close>, which the optimizer is built from: the parameters of the
  registered modules, in the order of registration.
\<close>

fun module_parameters :: "'p nn_module \<Rightarrow> 'p list" where
  "module_parameters (Conv2d cin cout k p) = [p]"
| "module_parameters (MaxPool2d k st) = []"
| "module_parameters (Linear fin fout p) = [p]"

definition parameters :: "'p Net \<Rightarrow> 'p list" where
  "parameters n = concat (map module_parameters [conv1 n, pool n, conv2 n, fc1 n, fc2 n, fc3 n])"

text \<open>
  What the library computes is not part of the repository: calling a module, \<open>F.relu\<close>
  and \<open>Tensor.view\<close> are the operations of a backend over some type \<open>'t\<close> of
  tensors, each of which may raise.
\<close>

record ('p, 't) backend =
  module_call :: "'p nn_module \<Rightarrow> 't \<Rightarrow> error + 't"
  relu :: "'t \<Rightarrow> error + 't"
  view :: "int list \<Rightarrow> 't \<Rightarrow> error + 't"

text \<open>
  \<^verbatim>\<open>def forward(self, x):
      x = self.pool(F.relu(self.conv1(x)))
      x = self.pool(F.relu(self.conv2(x)))
      x = x.view(-1, 16 * 5 * 5)
      x = F.relu(self.fc1(x))
      x = F.relu(self.fc2(x))
      x = self.fc3(x)
      return x\<close>

  \<open>forward_conv\<close> is the first two statements, \<open>forward\<close> the whole body.
\<close>

definition forward_conv :: "('p, 't) backend \<Rightarrow> 'p Net \<Rightarrow> 't \<Rightarrow> error + 't" where
  "forward_conv be n x =
     sbind (module_call be (conv1 n) x) (\<lambda>x.
     sbind (relu be x) (\<lambda>x.
     sbind (module_call be (pool n) x) (\<lambda>x.
     sbind (module_call be (conv2 n) x) (\<lambda>x.
     sbind (relu be x) (\<lambda>x.
     module_call be (pool n) x)))))"

definition forward :: "('p, 't) backend \<Rightarrow> 'p Net \<Rightarrow> 't \<Rightarrow> error + 't" where
  "forward be n x =
     sbind (forward_conv be n x) (\<lambda>x.
     sbind (view be [- 1, 16 * 5 * 5] x) (\<lambda>x.
     sbind (module_call be (fc1 n) x) (\<lambda>x.
     sbind (relu be x) (\<lambda>x.
     sbind (module_call be (fc2 n) x) (\<lambda>x.
     sbind (relu be x) (\<lambda>x.
     module_call be (fc3 n) x))))))"

text \<open>
  A network as a sequence of layers, for comparison with \<open>forward\<close>: a layer is a
  module call, the activation or the reshape, and the layers with learnable parameters
  are the convolutions and the linear layers.
\<close>

datatype 'p layer = Module "'p nn_module" | ReLU | View "int list"

fun run_layer :: "('p, 't) backend \<Rightarrow> 'p layer \<Rightarrow> 't \<Rightarrow> error + 't" where
  "run_layer be (Module m) x = module_call be m x"
| "run_layer be ReLU x = relu be x"
| "run_layer be (View dims) x = view be dims x"

fun run_layers :: "('p, 't) backend \<Rightarrow> 'p layer list \<Rightarrow> 't \<Rightarrow> error + 't" where
  "run_layers be [] x = Inr x"
| "run_layers be (l # ls) x = sbind (run_layer be l x) (run_layers be ls)"

fun parameterized :: "'p layer \<Rightarrow> bool" where
  "parameterized (Module (Conv2d cin cout k p)) = True"
| "parameterized (Module (Linear fin fout p)) = True"
| "parameterized (Module (MaxPool2d k st)) = False"
| "parameterized ReLU = False"
| "parameterized (View dims) = False"

definition layer_sequence :: "'p Net \<Rightarrow> 'p layer list" where
  "layer_sequence n =
     [Module (conv1 n), ReLU, Module (pool n), Module (conv2 n), ReLU, Module (pool n),
      View [- 1, 16 * 5 * 5],
      Module (fc1 n), ReLU, Module (fc2 n), ReLU, Module (fc3 n)]"

subsection \<open>The library's layers on shapes\<close>

text \<open>
  The shape a library layer returns for the shape it is given, as the library documents
  it.  A convolution with kernel size \<open>k\<close> (stride 1, no padding) takes an input of
  \<open>cin\<close> channels, batched or not, whose height and width are at least \<open>k\<close>, and
  shrinks both by \<open>k - 1\<close>.  A pooling with kernel \<open>k\<close> and stride \<open>st\<close> yields
  \<open>(h - k) div st + 1\<close> rows.  A linear layer replaces the last dimension.  A view
  with one dimension \<open>-1\<close> infers it from the number of elements, which the known
  dimensions must divide.
\<close>

fun conv2d_shape :: "nat \<Rightarrow> nat \<Rightarrow> nat \<Rightarrow> nat list \<Rightarrow> error + nat list" where
  "conv2d_shape cin cout k [n, c, h, w] =
     (if c = cin \<and> k \<le> h \<and> k \<le> w then Inr [n, cout, h - k + 1, w - k + 1]
      else Inl RuntimeError)"
| "conv2d_shape cin cout k [c, h, w] =
     (if c = cin \<and> k \<le> h \<and> k \<le> w then Inr [cout, h - k + 1, w - k + 1]
      else Inl RuntimeError)"
| "conv2d_shape cin cout k s = Inl RuntimeError"

fun max_pool2d_shape :: "nat \<Rightarrow> nat \<Rightarrow> nat list \<Rightarrow> error + nat list" where
  "max_pool2d_shape k st [n, c, h, w] =
     (if 0 < st \<and> k \<le> h \<and> k \<le> w then Inr [n, c, (h - k) div st + 1, (w - k) div st + 1]
      else Inl RuntimeError)"
| "max_pool2d_shape k st [c, h, w] =
     (if 0 < st \<and> k \<le> h \<and> k \<le> w then Inr [c, (h - k) div st + 1, (w - k) div st + 1]
      else Inl RuntimeError)"
| "max_pool2d_shape k st s = Inl RuntimeError"

definition linear_shape :: "nat \<Rightarrow> nat \<Rightarrow> nat list \<Rightarrow> error + nat list" where
  "linear_shape fin fout s =
     (if s \<noteq> [] \<and> last s = fin then Inr (butlast s @ [fout]) else Inl RuntimeError)"

definition view_shape :: "int list \<Rightarrow> nat list \<Rightarrow> error + nat list" where
  "view_shape dims s =
     (let numel = prod_list s;
          known = prod_list (map nat (filter (\<lambda>d. d \<noteq> - 1) dims))
      in if list_ex (\<lambda>d. d < - 1) dims \<or> 1 < length (filter (\<lambda>d. d = - 1) dims)
         then Inl RuntimeError
         else if list_ex (\<lambda>d. d = - 1) dims
         then (if 0 < known \<and> numel mod known = 0
               then Inr (map (\<lambda>d. if d = - 1 then numel div known else nat d) dims)
               else Inl RuntimeError)
         else if numel = known then Inr (map nat dims) else Inl RuntimeError)"

fun module_shape :: "'p nn_module \<Rightarrow> nat list \<Rightarrow> error + nat list" where
  "module_shape (Conv2d cin cout k p) s = conv2d_shape cin cout k s"
| "module_shape (MaxPool2d k st) s = max_pool2d_shape k st s"
| "module_shape (Linear fin fout p) s = linear_shape fin fout s"

definition shape_backend :: "('p, nat list) backend" where
  "shape_backend = \<lparr>module_call = module_shape, relu = Inr, view = view_shape\<rparr>"

section \<open>The notebook's cells\<close>

subsection \<open>The framework and the notebook's state\<close>

text \<open>
  A batch is a pair of tensors: the images, indexed by sample, channel, row and column,
  and the class indices.  The model's outputs (of type \<open>'y\<close>) and the loss (of type
  \<open>'z\<close>) are tensors that carry the autograd graph; the state of the network, its
  parameters and their gradients, is of type \<open>'n\<close>, and the optimizer's own state
  of type \<open>'o\<close>.  The framework's operations on them are parameters of the model, and
  every one of them may raise.
\<close>

type_synonym images = "real list list list list tensor"
type_synonym labels = "nat list tensor"
type_synonym logits = "real list list tensor"
type_synonym batch = "images \<times> labels"

record ('n, 'o, 'y, 'z) framework =
  cuda_available :: bool
  net_call :: "bool \<Rightarrow> 'n \<Rightarrow> images \<Rightarrow> error + 'y"
  criterion :: "'y \<Rightarrow> labels \<Rightarrow> error + 'z"
  backward :: "'z \<Rightarrow> 'n \<Rightarrow> error + 'n"
  zero_grad :: "'o \<Rightarrow> 'n \<Rightarrow> error + 'n"
  step :: "'o \<Rightarrow> 'n \<Rightarrow> error + ('o \<times> 'n)"
  item :: "'z \<Rightarrow> error + real"
  data :: "'y \<Rightarrow> logits"
  make_grid :: "real list list list list \<Rightarrow> error + image"
  plt_imshow :: "real list list list \<Rightarrow> error + unit"
  cifar10 :: "dataset \<Rightarrow> error + unit"
  data_loader :: "dataset \<Rightarrow> nat \<Rightarrow> bool \<Rightarrow> nat \<Rightarrow> error + batch list"
  net_new :: "error + 'n"
  net_to :: "'n \<Rightarrow> device \<Rightarrow> error + 'n"
  sgd :: "'n \<Rightarrow> real \<Rightarrow> real \<Rightarrow> error + 'o"

text \<open>
  The first argument of \<open>net_call\<close> is the autograd mode the call runs in.  The calls
  a cell makes to the framework are recorded, each with the error it raised, if any.
\<close>

datatype ('y, 'z) call =
    TensorTo device | MakeGrid | TensorDiv | TensorAdd | Numpy | NpTranspose | PltImshow
  | GetItem nat
  | ZeroGrad | NetCall images | Criterion 'y labels | Backward 'z | Step | Item 'z
  | TorchMax logits | Size labels | TensorEq | TensorSum | SumItem
  | Cifar10 dataset | DataLoader dataset | NetNew | NetTo device | CrossEntropyLoss | SGD
  | CudaIsAvailable

datatype line = Text string | LossLine nat nat real | AccuracyLine int

record ('n, 'o, 'y, 'z) world =
  py_device :: device
  trainloader :: "batch list"
  testloader :: "batch list"
  net :: 'n
  optimizer :: 'o
  grad_enabled :: bool
  running_loss :: real
  correct :: nat
  total_n :: nat
  stdout :: "line list"
  figures :: "real list list list list"
  call_log :: "(('y, 'z) call \<times> error option) list"

text \<open>
  A cell runs on the state and ends with a value or with the exception that left it;
  the assignments made before a raise remain.
\<close>

type_synonym ('w, 'a) exec = "'w \<Rightarrow> 'w \<times> (error + 'a)"

definition ret :: "'a \<Rightarrow> ('w, 'a) exec" where
  "ret a = (\<lambda>w. (w, Inr a))"

definition raise :: "error \<Rightarrow> ('w, 'a) exec" where
  "raise e = (\<lambda>w. (w, Inl e))"

definition bnd :: "('w, 'a) exec \<Rightarrow> ('a \<Rightarrow> ('w, 'b) exec) \<Rightarrow> ('w, 'b) exec" where
  "bnd m f = (\<lambda>w. case m w of (w', Inl e) \<Rightarrow> (w', Inl e) | (w', Inr a) \<Rightarrow> f a w')"

definition gets :: "('w \<Rightarrow> 'a) \<Rightarrow> ('w, 'a) exec" where
  "gets f = (\<lambda>w. (w, Inr (f w)))"

definition assign :: "('w \<Rightarrow> 'w) \<Rightarrow> ('w, unit) exec" where
  "assign g = (\<lambda>w. (g w, Inr ()))"

definition fcall :: "('y, 'z) call \<Rightarrow> (('n, 'o, 'y, 'z) world \<Rightarrow> error + 'a) \<Rightarrow>
    (('n, 'o, 'y, 'z) world, 'a) exec" where
  "fcall c f = (\<lambda>w. case f w of
      Inl e \<Rightarrow> (w\<lparr>call_log := call_log w @ [(c, Some e)]\<rparr>, Inl e)
    | Inr a \<Rightarrow> (w\<lparr>call_log := call_log w @ [(c, None)]\<rparr>, Inr a))"

fun for_each :: "('a \<Rightarrow> ('w, unit) exec) \<Rightarrow> 'a list \<Rightarrow> ('w, unit) exec" where
  "for_each body [] = ret ()"
| "for_each body (x # xs) = bnd (body x) (\<lambda>_. for_each body xs)"

text \<open>
  \<^verbatim>\<open>with torch.no_grad():\<close> switches the autograd mode off for its body and restores
  it when the body is left, by its end or by an exception, which it lets through.
\<close>

definition with_no_grad :: "(('n, 'o, 'y, 'z) world, 'a) exec \<Rightarrow> (('n, 'o, 'y, 'z) world, 'a) exec" where
  "with_no_grad body = (\<lambda>w. case body (w\<lparr>grad_enabled := False\<rparr>) of
      (w', r) \<Rightarrow> (w'\<lparr>grad_enabled := grad_enabled w\<rparr>, r))"

subsection \<open>Datasets, loaders, network and optimizer\<close>

text \<open>
  \<^verbatim>\<open>trainset = torchvision.datasets.CIFAR10(root='./data', train=True,
                                          download=True, transform=transform)
  trainloader = torch.utils.data.DataLoader(trainset, batch_size=4,
                                            shuffle=True, num_workers=2)
  testset = torchvision.datasets.CIFAR10(root='./data', train=False,
                                         download=True, transform=transform)
  testloader = torch.utils.data.DataLoader(testset, batch_size=4,
                                           shuffle=False, num_workers=2)\<close>

  Each notebook iterates a \<open>DataLoader\<close> once, so a loader is modelled by the list of
  batches that iteration serves.
\<close>

definition data_cell :: "('n, 'o, 'y, 'z) framework \<Rightarrow> (('n, 'o, 'y, 'z) world, unit) exec" where
  "data_cell fw =
     bnd (fcall (Cifar10 trainset) (\<lambda>_. cifar10 fw trainset)) (\<lambda>_.
     bnd (fcall (DataLoader trainset) (\<lambda>_. data_loader fw trainset 4 True 2)) (\<lambda>served.
     bnd (assign (\<lambda>w. w\<lparr>trainloader := served\<rparr>)) (\<lambda>_.
     bnd (fcall (Cifar10 testset) (\<lambda>_. cifar10 fw testset)) (\<lambda>_.
     bnd (fcall (DataLoader testset) (\<lambda>_. data_loader fw testset 4 False 2)) (\<lambda>served.
     assign (\<lambda>w. w\<lparr>testloader := served\<rparr>))))))"

text \<open>
  \<^verbatim>\<open>net = Net().to('cuda')\<close>

  \<^verbatim>\<open>criterion = nn.CrossEntropyLoss() #funcao de perda
  optimizer = optim.SGD(net.parameters(), lr=0.001, momentum=0.9)\<close>

  \<^verbatim>\<open>print(torch.cuda.is_available())\<close>
\<close>

definition net_cell :: "('n, 'o, 'y, 'z) framework \<Rightarrow> (('n, 'o, 'y, 'z) world, unit) exec" where
  "net_cell fw =
     bnd (fcall NetNew (\<lambda>_. net_new fw)) (\<lambda>n.
     bnd (fcall (NetTo CUDA) (\<lambda>_. net_to fw n CUDA)) (\<lambda>n.
     assign (\<lambda>w. w\<lparr>net := n\<rparr>)))"

definition optimizer_cell :: "('n, 'o, 'y, 'z) framework \<Rightarrow> (('n, 'o, 'y, 'z) world, unit) exec" where
  "optimizer_cell fw =
     bnd (fcall CrossEntropyLoss (\<lambda>_. Inr ())) (\<lambda>_.
     bnd (fcall SGD (\<lambda>w. sgd fw (net w) 0.001 0.9)) (\<lambda>opt.
     assign (\<lambda>w. w\<lparr>optimizer := opt\<rparr>)))"

definition cuda_check_cell :: "('n, 'o, 'y, 'z) framework \<Rightarrow> (('n, 'o, 'y, 'z) world, unit) exec" where
  "cuda_check_cell fw =
     bnd (fcall CudaIsAvailable (\<lambda>_. Inr (cuda_available fw))) (\<lambda>available.
     assign (\<lambda>w. w\<lparr>stdout := stdout w @ [Text (if available then ''True'' else ''False'')]\<rparr>))"

subsection \<open>Moving the batches to the device\<close>

text \<open>
  \<^verbatim>\<open>device = torch.device('cuda')\<close>

  \<^verbatim>\<open>trainloader = [(inputs.to(device), labels.to(device)) for inputs, labels in trainloader]
  testloader = [(inputs.to(device), labels.to(device)) for inputs, labels in testloader]\<close>

  \<open>Tensor.to\<close> returns the tensor's contents on the device asked for, and raises when
  that is the accelerator and the machine has none.
\<close>

definition device_cell :: "(('n, 'o, 'y, 'z) world, unit) exec" where
  "device_cell = assign (\<lambda>w. w\<lparr>py_device := CUDA\<rparr>)"

definition tensor_to :: "('n, 'o, 'y, 'z) framework \<Rightarrow> 'a tensor \<Rightarrow> device \<Rightarrow> error + 'a tensor" where
  "tensor_to fw t d =
     (if d = CUDA \<and> \<not> cuda_available fw then Inl RuntimeError else Inr (t\<lparr>device := d\<rparr>))"

fun to_device_loop :: "('n, 'o, 'y, 'z) framework \<Rightarrow> batch list \<Rightarrow> batch list \<Rightarrow>
    (('n, 'o, 'y, 'z) world, batch list) exec" where
  "to_device_loop fw acc [] = ret acc"
| "to_device_loop fw acc ((inputs, labels) # rest) =
     bnd (gets py_device) (\<lambda>d.
     bnd (fcall (TensorTo d) (\<lambda>_. tensor_to fw inputs d)) (\<lambda>inputs'.
     bnd (gets py_device) (\<lambda>d.
     bnd (fcall (TensorTo d) (\<lambda>_. tensor_to fw labels d)) (\<lambda>labels'.
     to_device_loop fw (acc @ [(inputs', labels')]) rest))))"

definition transfer_cell :: "('n, 'o, 'y, 'z) framework \<Rightarrow> (('n, 'o, 'y, 'z) world, unit) exec" where
  "transfer_cell fw =
     bnd (gets trainloader) (\<lambda>served.
     bnd (to_device_loop fw [] served) (\<lambda>moved.
     bnd (assign (\<lambda>w. w\<lparr>trainloader := moved\<rparr>)) (\<lambda>_.
     bnd (gets testloader) (\<lambda>served.
     bnd (to_device_loop fw [] served) (\<lambda>moved.
     assign (\<lambda>w. w\<lparr>testloader := moved\<rparr>))))))"

subsection \<open>Showing a batch\<close>

text \<open>
  \<^verbatim>\<open>classes = ('plane', 'car', 'bird', 'cat',
             'deer', 'dog', 'frog', 'horse', 'ship', 'truck')

  def imshow(img):
      img = img / 2 + 0.5     # unnormalize
      npimg = img.numpy()
      plt.imshow(np.transpose(npimg, (1, 2, 0)))

  dataiter = iter(trainloader)
  images, labels = next(dataiter)
  imshow(torchvision.utils.make_grid(images))
  print(' '.join('%5s' % classes[labels[j]] for j in range(4)))\<close>

  \<open>Tensor.numpy\<close> raises a \<open>TypeError\<close> for a tensor that is not in host memory.
  \<open>make_grid\<close> lays the batch out as one image on the device of the batch.
\<close>

definition classes :: "string list" where
  "classes = [''plane'', ''car'', ''bird'', ''cat'',
              ''deer'', ''dog'', ''frog'', ''horse'', ''ship'', ''truck'']"

definition numpy :: "'a tensor \<Rightarrow> error + 'a" where
  "numpy t = (if device t = CPU then Inr (dat t) else Inl TypeError)"

definition np_transpose_120 :: "real list list list \<Rightarrow> real list list list" where
  "np_transpose_120 a = map transpose (transpose a)"

definition torch_make_grid :: "('n, 'o, 'y, 'z) framework \<Rightarrow> images \<Rightarrow> error + image tensor" where
  "torch_make_grid fw t =
     sbind (make_grid fw (dat t)) (\<lambda>g. Inr \<lparr>device = device t, dat = g\<rparr>)"

definition imshow :: "('n, 'o, 'y, 'z) framework \<Rightarrow> image tensor \<Rightarrow> (('n, 'o, 'y, 'z) world, unit) exec" where
  "imshow fw img =
     bnd (fcall TensorDiv (\<lambda>_. Inr (tensor_div img 2))) (\<lambda>half.
     bnd (fcall TensorAdd (\<lambda>_. Inr (tensor_add half 0.5))) (\<lambda>img.
     bnd (fcall Numpy (\<lambda>_. numpy img)) (\<lambda>npimg.
     bnd (fcall NpTranspose (\<lambda>_. Inr (np_transpose_120 npimg))) (\<lambda>hwc.
     bnd (fcall PltImshow (\<lambda>_. plt_imshow fw hwc)) (\<lambda>_.
     assign (\<lambda>w. w\<lparr>figures := figures w @ [hwc]\<rparr>))))))"

definition pad5 :: "string \<Rightarrow> string" where
  "pad5 s = replicate (5 - length s) (CHR '' '') @ s"

fun join_spaces :: "string list \<Rightarrow> string" where
  "join_spaces [] = []"
| "join_spaces [s] = s"
| "join_spaces (s # t # ts) = s @ '' '' @ join_spaces (t # ts)"

fun label_names :: "labels \<Rightarrow> nat list \<Rightarrow> (('n, 'o, 'y, 'z) world, string list) exec" where
  "label_names labels [] = ret []"
| "label_names labels (j # js) =
     bnd (fcall (GetItem j) (\<lambda>_. if j < length (dat labels) then Inr (dat labels ! j)
                                else Inl IndexError)) (\<lambda>k.
     bnd (if k < length classes then ret (pad5 (classes ! k)) else raise IndexError) (\<lambda>s.
     bnd (label_names labels js) (\<lambda>rest.
     ret (s # rest))))"

definition imshow_cell :: "('n, 'o, 'y, 'z) framework \<Rightarrow> (('n, 'o, 'y, 'z) world, unit) exec" where
  "imshow_cell fw =
     bnd (gets trainloader) (\<lambda>dataiter.
     case dataiter of
       [] \<Rightarrow> raise StopIteration
     | (images, labels) # _ \<Rightarrow>
         bnd (fcall MakeGrid (\<lambda>_. torch_make_grid fw images)) (\<lambda>grid.
         bnd (imshow fw grid) (\<lambda>_.
         bnd (label_names labels [0..<4]) (\<lambda>names.
         assign (\<lambda>w. w\<lparr>stdout := stdout w @ [Text (join_spaces names)]\<rparr>)))))"

subsection \<open>Training\<close>

text \<open>
  \<^verbatim>\<open>for epoch in range(2):  # loop over the dataset multiple times
      running_loss = 0.0
      for i, data in enumerate(trainloader, 0):
          inputs, labels = data
          optimizer.zero_grad()
          outputs = net(inputs)
          loss = criterion(outputs, labels)
          loss.backward()
          optimizer.step()
          running_loss += loss.item()
          if i % 2000 == 1999:    # print every 2000 mini-batches
              print('[%d, %5d] loss: %.3f' %
                    (epoch + 1, i + 1, running_loss / 2000))
              running_loss = 0.0
  print('Finished Training')\<close>

  The printed loss line is kept as the three values it formats.
\<close>

definition train_batch :: "('n, 'o, 'y, 'z) framework \<Rightarrow> nat \<Rightarrow> nat \<times> batch \<Rightarrow>
    (('n, 'o, 'y, 'z) world, unit) exec" where
  "train_batch fw epoch = (\<lambda>(i, (inputs, labels)).
     bnd (fcall ZeroGrad (\<lambda>w. zero_grad fw (optimizer w) (net w))) (\<lambda>n.
     bnd (assign (\<lambda>w. w\<lparr>net := n\<rparr>)) (\<lambda>_.
     bnd (fcall (NetCall inputs) (\<lambda>w. net_call fw (grad_enabled w) (net w) inputs)) (\<lambda>outputs.
     bnd (fcall (Criterion outputs labels) (\<lambda>_. criterion fw outputs labels)) (\<lambda>loss.
     bnd (fcall (Backward loss) (\<lambda>w. backward fw loss (net w))) (\<lambda>n.
     bnd (assign (\<lambda>w. w\<lparr>net := n\<rparr>)) (\<lambda>_.
     bnd (fcall Step (\<lambda>w. step fw (optimizer w) (net w))) (\<lambda>(opt, n).
     bnd (assign (\<lambda>w. w\<lparr>optimizer := opt, net := n\<rparr>)) (\<lambda>_.
     bnd (fcall (Item loss) (\<lambda>_. item fw loss)) (\<lambda>v.
     bnd (assign (\<lambda>w. w\<lparr>running_loss := running_loss w + v\<rparr>)) (\<lambda>_.
     if i mod 2000 = 1999
     then bnd (assign (\<lambda>w. w\<lparr>stdout := stdout w @
                  [LossLine (epoch + 1) (i + 1) (running_loss w / 2000)]\<rparr>)) (\<lambda>_.
          assign (\<lambda>w. w\<lparr>running_loss := 0\<rparr>))
     else ret ())))))))))))"

definition train_epoch :: "('n, 'o, 'y, 'z) framework \<Rightarrow> nat \<Rightarrow> (('n, 'o, 'y, 'z) world, unit) exec" where
  "train_epoch fw epoch =
     bnd (assign (\<lambda>w. w\<lparr>running_loss := 0\<rparr>)) (\<lambda>_.
     bnd (gets trainloader) (\<lambda>batches.
     for_each (train_batch fw epoch) (enumerate 0 batches)))"

definition train_cell :: "('n, 'o, 'y, 'z) framework \<Rightarrow> (('n, 'o, 'y, 'z) world, unit) exec" where
  "train_cell fw =
     bnd (for_each (train_epoch fw) [0..<2]) (\<lambda>_.
     assign (\<lambda>w. w\<lparr>stdout := stdout w @ [Text ''Finished Training'']\<rparr>))"

subsection \<open>Evaluation\<close>

text \<open>
  \<^verbatim>\<open>correct = 0
  total = 0
  with torch.no_grad():
      for data in testloader:
          images, labels = data
          outputs = net(images)
          _, predicted = torch.max(outputs.data, 1)
          total += labels.size(0)
          correct += (predicted == labels).sum().item()

  print('Accuracy of the network on the 10000 test images: %d %%' % (
      100 * correct / total))\<close>

  \<open>torch.max\<close> along dimension 1 returns, for every row, its maximum and the index
  of the first element that attains it, and raises on a row of no elements.  The
  comparison of two vectors is elementwise; it raises for tensors on different devices
  and for lengths that differ, unless one of them is 1.  The printed line is kept as
  the integer that \<open>%d\<close> formats, the accuracy rounded towards zero.
\<close>

fun argmax :: "real list \<Rightarrow> nat" where
  "argmax [] = 0"
| "argmax [x] = 0"
| "argmax (x # y # ys) = (let j = argmax (y # ys) in if x < (y # ys) ! j then Suc j else 0)"

definition torch_max :: "logits \<Rightarrow> error + (real list tensor \<times> nat list tensor)" where
  "torch_max t =
     (if list_ex (\<lambda>row. row = []) (dat t) then Inl IndexError
      else Inr (\<lparr>device = device t, dat = map (\<lambda>row. row ! argmax row) (dat t)\<rparr>,
                \<lparr>device = device t, dat = map argmax (dat t)\<rparr>))"

definition tensor_eq :: "nat list tensor \<Rightarrow> nat list tensor \<Rightarrow> error + bool list tensor" where
  "tensor_eq a b =
     (if device a \<noteq> device b then Inl RuntimeError
      else if length (dat a) = length (dat b)
      then Inr \<lparr>device = device a, dat = map (\<lambda>(x, y). x = y) (zip (dat a) (dat b))\<rparr>
      else if length (dat a) = 1
      then Inr \<lparr>device = device a, dat = map (\<lambda>y. hd (dat a) = y) (dat b)\<rparr>
      else if length (dat b) = 1
      then Inr \<lparr>device = device a, dat = map (\<lambda>x. x = hd (dat b)) (dat a)\<rparr>
      else Inl RuntimeError)"

definition tensor_sum :: "bool list tensor \<Rightarrow> nat tensor" where
  "tensor_sum t = \<lparr>device = device t, dat = length (filter id (dat t))\<rparr>"

definition eval_batch :: "('n, 'o, 'y, 'z) framework \<Rightarrow> batch \<Rightarrow> (('n, 'o, 'y, 'z) world, unit) exec" where
  "eval_batch fw = (\<lambda>(images, labels).
     bnd (fcall (NetCall images) (\<lambda>w. net_call fw (grad_enabled w) (net w) images)) (\<lambda>outputs.
     bnd (fcall (TorchMax (data fw outputs)) (\<lambda>_. torch_max (data fw outputs))) (\<lambda>(_, predicted).
     bnd (fcall (Size labels) (\<lambda>_. Inr (length (dat labels)))) (\<lambda>size0.
     bnd (assign (\<lambda>w. w\<lparr>total_n := total_n w + size0\<rparr>)) (\<lambda>_.
     bnd (fcall TensorEq (\<lambda>_. tensor_eq predicted labels)) (\<lambda>hits.
     bnd (fcall TensorSum (\<lambda>_. Inr (tensor_sum hits))) (\<lambda>s.
     bnd (fcall SumItem (\<lambda>_. Inr (dat s))) (\<lambda>k.
     assign (\<lambda>w. w\<lparr>correct := correct w + k\<rparr>)))))))))"

definition eval_cell :: "('n, 'o, 'y, 'z) framework \<Rightarrow> (('n, 'o, 'y, 'z) world, unit) exec" where
  "eval_cell fw =
     bnd (assign (\<lambda>w. w\<lparr>correct := 0\<rparr>)) (\<lambda>_.
     bnd (assign (\<lambda>w. w\<lparr>total_n := 0\<rparr>)) (\<lambda>_.
     bnd (with_no_grad (bnd (gets testloader) (for_each (eval_batch fw)))) (\<lambda>_.
     bnd (gets (\<lambda>w. (correct w, total_n w))) (\<lambda>(c, t).
     if t = 0 then raise ZeroDivisionError
     else assign (\<lambda>w. w\<lparr>stdout := stdout w @
            [AccuracyLine (\<lfloor>100 * real c / real t\<rfloor>)]\<rparr>)))))"

section \<open>Notions the properties are stated with\<close>

text \<open>
  A raise is propagated when the call that raised is the last one the cell made and the
  cell ends with that very error.  A cell propagates the errors of the framework when
  this holds of the calls it adds to the record, from every state.
\<close>

definition propagated :: "(('y, 'z) call \<times> error option) list \<Rightarrow> error + 'a \<Rightarrow> bool" where
  "propagated new r = (case new of
      [] \<Rightarrow> True
    | _ # _ \<Rightarrow> list_all (\<lambda>ev. snd ev = None) (butlast new)
               \<and> (case snd (last new) of None \<Rightarrow> True | Some e \<Rightarrow> r = Inl e))"

definition propagates :: "(('n, 'o, 'y, 'z) world, 'a) exec \<Rightarrow> bool" where
  "propagates m = (\<forall>w. case m w of (w', r) \<Rightarrow>
      (\<exists>new. call_log w' = call_log w @ new \<and> propagated new r))"

text \<open>
  The calls of one training step on a batch, all returning: the five calls of the step
  and the read of the loss value.  \<open>step_calls\<close> is the list without the read.
\<close>

definition step_calls :: "batch \<Rightarrow> 'y \<times> 'z \<Rightarrow> (('y, 'z) call \<times> error option) list" where
  "step_calls b r = (case (b, r) of ((inputs, labels), (outputs, loss)) \<Rightarrow>
     [(ZeroGrad, None), (NetCall inputs, None), (Criterion outputs labels, None),
      (Backward loss, None), (Step, None)])"

definition batch_calls :: "batch \<Rightarrow> 'y \<times> 'z \<Rightarrow> (('y, 'z) call \<times> error option) list" where
  "batch_calls b r = step_calls b r @ [(Item (snd r), None)]"

text \<open>
  The outputs and the loss of a step on a batch are produced by the framework: the
  outputs by a call of the network on the inputs of the batch, the loss by the criterion
  on these outputs and the labels of the batch.
\<close>

definition produced :: "('n, 'o, 'y, 'z) framework \<Rightarrow> batch \<Rightarrow> 'y \<times> 'z \<Rightarrow> bool" where
  "produced fw b r =
     ((\<exists>g n. net_call fw g n (fst b) = Inr (fst r)) \<and> criterion fw (fst r) (snd b) = Inr (snd r))"

text \<open>The calls that change the network or the optimizer.\<close>

fun is_update :: "('y, 'z) call \<Rightarrow> bool" where
  "is_update ZeroGrad = True"
| "is_update (Backward loss) = True"
| "is_update Step = True"
| "is_update c = False"

text \<open>
  The class a row of logits predicts: the index of the maximum, the first one if several
  elements attain it.
\<close>

definition is_first_max :: "real list \<Rightarrow> nat \<Rightarrow> bool" where
  "is_first_max row i =
     (i < length row \<and> (\<forall>j < length row. row ! j \<le> row ! i) \<and> (\<forall>j < i. row ! j < row ! i))"

text \<open>The logits the network returns for a batch of images outside autograd.\<close>

definition model_logits :: "('n, 'o, 'y, 'z) framework \<Rightarrow> 'n \<Rightarrow> images \<Rightarrow> logits" where
  "model_logits fw n images =
     (case net_call fw False n images of Inl e \<Rightarrow> \<lparr>device = device images, dat = []\<rparr>
      | Inr y \<Rightarrow> data fw y)"

text \<open>The test samples: every row of logits with its label, batch after batch.\<close>

definition test_samples :: "('n, 'o, 'y, 'z) framework \<Rightarrow> 'n \<Rightarrow> batch list \<Rightarrow> (real list \<times> nat) list" where
  "test_samples fw n batches =
     concat (map (\<lambda>(images, labels). zip (dat (model_logits fw n images)) (dat labels)) batches)"

text \<open>
  A batch is served well when the network, outside autograd, returns for it one non-empty
  row of logits per label, on the device of the labels.
\<close>

definition served_well :: "('n, 'o, 'y, 'z) framework \<Rightarrow> 'n \<Rightarrow> batch \<Rightarrow> bool" where
  "served_well fw n b = (case net_call fw False n (fst b) of
      Inl e \<Rightarrow> False
    | Inr y \<Rightarrow> length (dat (data fw y)) = length (dat (snd b))
              \<and> device (data fw y) = device (snd b)
              \<and> \<not> list_ex (\<lambda>row. row = []) (dat (data fw y)))"

subsection \<open>A small framework to run the cells on\<close>

text \<open>
  The network lives on the accelerator: it raises on images in host memory, and returns
  the first row of every image as its logits otherwise.
\<close>

definition first_row :: "real list list list \<Rightarrow> real list" where
  "first_row sample = (case sample of [] \<Rightarrow> [] | ch # _ \<Rightarrow> (case ch of [] \<Rightarrow> [] | row # _ \<Rightarrow> row))"

definition demo_framework :: "(nat, nat, logits, real) framework" where
  "demo_framework =
     \<lparr>cuda_available = True,
      net_call = (\<lambda>g n x. if device x = CUDA
                          then Inr \<lparr>device = CUDA, dat = map first_row (dat x)\<rparr>
                          else Inl RuntimeError),
      criterion = (\<lambda>y l. Inr (real (length (dat l)))),
      backward = (\<lambda>z n. Inr n),
      zero_grad = (\<lambda>opt n. Inr n),
      step = (\<lambda>opt n. Inr (opt + 1, n + 1)),
      item = (\<lambda>z. Inr z),
      data = (\<lambda>y. y),
      make_grid = (\<lambda>xs. case xs of [] \<Rightarrow> Inl RuntimeError | x # _ \<Rightarrow> Inr x),
      plt_imshow = (\<lambda>a. Inr ()),
      cifar10 = (\<lambda>ds. Inr ()),
      data_loader = (\<lambda>ds batch_size shuffle workers. Inr []),
      net_new = Inr 0,
      net_to = (\<lambda>n d. Inr n),
      sgd = (\<lambda>n lr momentum. Inr 0)\<rparr>"

definition demo_images :: "device \<Rightarrow> images" where
  "demo_images d = \<lparr>device = d, dat = [[[[0.1, 0.9]]], [[[0.8, 0.2]]], [[[0.3, 0.7]]], [[[0.6, 0.4]]]]\<rparr>"

definition demo_labels :: "device \<Rightarrow> labels" where
  "demo_labels d = \<lparr>device = d, dat = [1, 1, 1, 0]\<rparr>"

definition demo_world :: "(nat, nat, logits, real) world" where
  "demo_world =
     \<lparr>py_device = CPU, trainloader = [(demo_images CPU, demo_labels CPU)],
      testloader = [(demo_images CPU, demo_labels CPU)], net = 0, optimizer = 0,
      grad_enabled = True, running_loss = 0, correct = 0, total_n = 0, stdout = [],
      figures = [], call_log = []\<rparr>"

definition demo_world_cuda :: "(nat, nat, logits, real) world" where
  "demo_world_cuda =
     demo_world\<lparr>py_device := CUDA, trainloader := [(demo_images CUDA, demo_labels CUDA)],
       testloader := [(demo_images CUDA, demo_labels CUDA)]\<rparr>"


section \<open>Properties of the transform pipeline\<close>

lemma byte_to_float_range: "0 \<le> byte_to_float b \<and> byte_to_float b \<le> 1"
proof -
  have "unat b < 2 ^ LENGTH(8)" by (rule unsigned_less)
  then have "unat b \<le> 255" by simp
  then have hi: "real (unat b) \<le> 255" by linarith
  have lo: "0 \<le> real (unat b)" by (rule of_nat_0_le_iff)
  from lo hi show ?thesis unfolding byte_to_float_def by (simp del: of_nat_unat)
qed

text \<open>
  C7.  Both datasets are built with the same transform, the composition of \<open>ToTensor\<close>
  and \<open>Normalize\<close> with mean 0.5 and standard deviation 0.5 on each of the three
  channels.  A sample served by either dataset is the picture with every byte \<open>b\<close>
  first scaled to \<open>x = b / 255\<close>, which lies in \<open>[0, 1]\<close>, and then mapped to
  \<open>(x - 0.5) / 0.5 = 2 x - 1\<close>, which lies in \<open>[-1, 1]\<close>.
\<close>

theorem transform_pipeline:
  "ds_transform trainset = Compose [ToTensor, Normalize [0.5, 0.5, 0.5] [0.5, 0.5, 0.5]]
   \<and> ds_transform testset = ds_transform trainset
   \<and> getitem testset img = getitem trainset img
   \<and> getitem trainset img = Inr (Tens \<lparr>device = CPU,
         dat = map (\<lambda>band. map (map (\<lambda>px. 2 * byte_to_float (band px) - 1)) img)
                 [red, green, blue]\<rparr>)
   \<and> 0 \<le> byte_to_float b \<and> byte_to_float b \<le> 1
   \<and> (byte_to_float b - 0.5) / 0.5 = 2 * byte_to_float b - 1
   \<and> - 1 \<le> 2 * byte_to_float b - 1 \<and> 2 * byte_to_float b - 1 \<le> 1"
proof -
  have r: "0 \<le> byte_to_float b" "byte_to_float b \<le> 1"
    using byte_to_float_range [of b] by simp_all
  have g: "getitem trainset img = Inr (Tens \<lparr>device = CPU,
         dat = map (\<lambda>band. map (map (\<lambda>px. 2 * byte_to_float (band px) - 1)) img)
                 [red, green, blue]\<rparr>)"
    by (simp add: trainset_def transform_def getitem_def to_tensor_def normalize_tensor_def
        sbind_def field_simps)
  have t: "ds_transform testset = ds_transform trainset"
    by (simp add: trainset_def testset_def)
  have "getitem testset img = getitem trainset img"
    by (simp add: getitem_def t)
  with r g t show ?thesis
    by (simp add: trainset_def transform_def field_simps)
qed

lemma length3: "length xs = 3 \<Longrightarrow> \<exists>a b c. xs = [a, b, c]"
  by (cases xs; simp; cases "tl xs"; simp; cases "tl (tl xs)"; simp)

lemma affine_roundtrip: "(x * 2 - 1) / 2 + 1 / 2 = (x::real)"
  by (simp add: field_simps)

text \<open>
  C8.  On a three-channel tensor, \<open>Normalize\<close> with mean 0.5 and standard deviation
  0.5 maps every value \<open>x\<close> to \<open>(x - 0.5) / 0.5\<close>, and the first line of \<open>imshow\<close>
  (divide by 2, add 0.5) maps the result back to the tensor it came from: the
  unnormalization is a left inverse of the normalization, in exact arithmetic.
\<close>

theorem unnormalize_normalize:
  "length (dat t) = 3 \<Longrightarrow>
   (\<exists>t'. normalize_tensor [0.5, 0.5, 0.5] [0.5, 0.5, 0.5] (Tens t) = Inr (Tens t')
      \<and> dat t' = map (map (map (\<lambda>x. (x - 0.5) / 0.5))) (dat t)
      \<and> unnormalize t' = t)"
proof -
  assume "length (dat t) = 3"
  then obtain a b c where d: "dat t = [a, b, c]" using length3 by blast
  have n: "normalize_tensor [0.5, 0.5, 0.5] [0.5, 0.5, 0.5] (Tens t) =
      Inr (Tens (t\<lparr>dat := map (map (map (\<lambda>x. (x - 0.5) / 0.5))) (dat t)\<rparr>))"
    by (simp add: normalize_tensor_def d)
  have u: "unnormalize (t\<lparr>dat := map (map (map (\<lambda>x. (x - 0.5) / 0.5))) (dat t)\<rparr>) = t"
    by (simp add: unnormalize_def tensor_add_def tensor_div_def o_def affine_roundtrip)
  from n u show ?thesis by auto
qed

theorem unnormalize_normalize_witness:
  "length (dat \<lparr>device = CPU, dat = [[[0.2 :: real]], [[0.4]], [[1]]]\<rparr>) = 3
   \<and> (\<exists>t'. normalize_tensor [0.5, 0.5, 0.5] [0.5, 0.5, 0.5]
              (Tens \<lparr>device = CPU, dat = [[[0.2]], [[0.4]], [[1]]]\<rparr>) = Inr (Tens t')
      \<and> dat t' = [[[- 0.6]], [[- 0.2]], [[1]]]
      \<and> unnormalize t' = \<lparr>device = CPU, dat = [[[0.2]], [[0.4]], [[1]]]\<rparr>)"
  using unnormalize_normalize [of "\<lparr>device = CPU, dat = [[[0.2 :: real]], [[0.4]], [[1]]]\<rparr>"]
  by simp

section \<open>Properties of the network\<close>

text \<open>
  C4.  Whatever the library computes, \<open>forward\<close> is the fixed sequence of twelve
  library layers of \<open>layer_sequence\<close>: convolution, ReLU, pooling, twice over, the
  reshape, and three linear layers with a ReLU after the first two.  Of these, the layers
  with learnable parameters are exactly five, the two convolutions and the three linear
  layers, and the network's parameters are theirs and no others.
\<close>

theorem forward_five_layers:
  "forward be n x = run_layers be (layer_sequence n) x
   \<and> filter parameterized (layer_sequence (Net_init p1 p2 p3 p4 p5)) =
       [Module (Conv2d 3 6 5 p1), Module (Conv2d 6 16 5 p2),
        Module (Linear (16 * 5 * 5) 120 p3), Module (Linear 120 84 p4),
        Module (Linear 84 10 p5)]
   \<and> length (filter parameterized (layer_sequence (Net_init p1 p2 p3 p4 p5))) = 5
   \<and> parameters (Net_init p1 p2 p3 p4 p5) = [p1, p2, p3, p4, p5]"
  by (simp add: forward_def forward_conv_def layer_sequence_def sbind_def Net_init_def
      parameters_def split: sum.splits)

text \<open>
  C10, as the code has it.  On an input of shape \<open>N x 3 x 32 x 32\<close> the two
  convolution and pooling stages yield a feature map of shape \<open>N x 16 x 5 x 5\<close>, that
  is \<open>16 * 5 * 5\<close> elements per sample; the view to \<open>(-1, 16 * 5 * 5)\<close> succeeds and
  keeps the batch size \<open>N\<close>; and \<open>forward\<close> returns a tensor of shape \<open>N x 10\<close>.
\<close>

theorem forward_shape:
  "forward_conv shape_backend (Net_init p1 p2 p3 p4 p5) [N, 3, 32, 32] = Inr [N, 16, 5, 5]
   \<and> prod_list [16, 5, 5] = (16 * 5 * 5 :: nat)
   \<and> view shape_backend [- 1, 16 * 5 * 5] [N, 16, 5, 5] = Inr [N, 16 * 5 * 5]
   \<and> forward shape_backend (Net_init p1 p2 p3 p4 p5) [N, 3, 32, 32] = Inr [N, 10]"
  by (simp add: forward_def forward_conv_def sbind_def Net_init_def shape_backend_def
      view_shape_def linear_shape_def)

text \<open>
  C10 as stated fails.  The shape \<open>N x 3 x 32 x 32\<close> is not the only one \<open>forward\<close>
  accepts: an input of 33 rows and columns passes every layer as well, since the pooling
  rounds down.
\<close>

theorem forward_shape_other_input:
  "forward shape_backend (Net_init () () () () ()) [1, 3, 33, 33] = Inr [1, 10]
   \<and> drop 2 [1, 3, 33, 33] \<noteq> [32, 32 :: nat]"
  by (simp add: forward_def forward_conv_def sbind_def Net_init_def shape_backend_def
      view_shape_def linear_shape_def)

section \<open>Errors of the framework reach the top of the cell\<close>

lemma propagated_Nil: "propagated [] r"
  by (simp add: propagated_def)

lemma propagated_single: "propagated [(c, None)] r" "propagated [(c, Some e)] (Inl e)"
  by (simp_all add: propagated_def)

lemma propagated_snoc:
  "propagated (ys @ [y]) r \<longleftrightarrow>
     list_all (\<lambda>ev. snd ev = None) ys \<and> (case snd y of None \<Rightarrow> True | Some e \<Rightarrow> r = Inl e)"
  by (cases ys) (simp_all add: propagated_def)

lemma propagated_Inr: "propagated new (Inr a) \<Longrightarrow> list_all (\<lambda>ev. snd ev = None) new"
proof (cases new rule: rev_cases)
  case Nil
  then show ?thesis by simp
next
  case (snoc ys y)
  assume "propagated new (Inr a)"
  with snoc show ?thesis
    by (cases "snd y") (simp_all add: propagated_snoc)
qed

lemma propagated_append:
  assumes a: "list_all (\<lambda>ev. snd ev = None) new1" and b: "propagated new2 r"
  shows "propagated (new1 @ new2) r"
proof (cases new2 rule: rev_cases)
  case Nil
  show ?thesis
  proof (cases new1 rule: rev_cases)
    case Nil
    with \<open>new2 = []\<close> show ?thesis by (simp add: propagated_def)
  next
    case (snoc ys y)
    with a \<open>new2 = []\<close> show ?thesis by (simp add: propagated_snoc)
  qed
next
  case (snoc ys y)
  with b have "list_all (\<lambda>ev. snd ev = None) ys
      \<and> (case snd y of None \<Rightarrow> True | Some e \<Rightarrow> r = Inl e)"
    by (simp add: propagated_snoc)
  with a have "propagated ((new1 @ ys) @ [y]) r"
    unfolding propagated_snoc by simp
  with snoc show ?thesis by simp
qed

lemma propagated_Inl:
  "propagated new (Inl e :: error + 'a) \<Longrightarrow> propagated new (Inl e :: error + 'b)"
proof (cases new rule: rev_cases)
  case Nil
  then show ?thesis by (simp add: propagated_def)
next
  case (snoc ys y)
  assume "propagated new (Inl e :: error + 'a)"
  with snoc show ?thesis
    by (cases "snd y") (simp_all add: propagated_snoc)
qed

lemma propagatesD:
  "propagates m \<Longrightarrow> m w = (w', r) \<Longrightarrow> \<exists>new. call_log w' = call_log w @ new \<and> propagated new r"
  unfolding propagates_def by (drule spec [of _ w]) simp

lemma propagates_ret: "propagates (ret a)"
  by (simp add: propagates_def ret_def propagated_Nil)

lemma propagates_raise: "propagates (raise e)"
  by (simp add: propagates_def raise_def propagated_Nil)

lemma propagates_gets: "propagates (gets f)"
  by (simp add: propagates_def gets_def propagated_Nil)

lemma propagates_assign: "(\<And>w. call_log (g w) = call_log w) \<Longrightarrow> propagates (assign g)"
  by (simp add: propagates_def assign_def propagated_Nil)

lemma propagates_fcall: "propagates (fcall c f)"
  by (auto simp: propagates_def fcall_def propagated_single split: sum.splits)

lemma propagates_bnd:
  assumes m: "propagates m" and f: "\<And>a. propagates (f a)"
  shows "propagates (bnd m f)"
  unfolding propagates_def
proof (intro allI)
  fix w
  obtain w1 r1 where mw: "m w = (w1, r1)" by (cases "m w")
  from propagatesD [OF m mw] obtain new1
    where n1: "call_log w1 = call_log w @ new1" "propagated new1 r1" by blast
  show "case bnd m f w of (w', r) \<Rightarrow> \<exists>new. call_log w' = call_log w @ new \<and> propagated new r"
  proof (cases r1)
    case (Inl e)
    with mw n1 show ?thesis by (auto simp: bnd_def dest: propagated_Inl)
  next
    case (Inr a)
    obtain w2 r2 where fw: "f a w1 = (w2, r2)" by (cases "f a w1")
    from propagatesD [OF f fw] obtain new2
      where n2: "call_log w2 = call_log w1 @ new2" "propagated new2 r2" by blast
    from n1 Inr have "list_all (\<lambda>ev. snd ev = None) new1" by (auto dest: propagated_Inr)
    with n2 have "propagated (new1 @ new2) r2" by (simp add: propagated_append)
    with mw fw Inr n1 n2 show ?thesis by (simp add: bnd_def)
  qed
qed

lemma propagates_for_each: "(\<And>x. propagates (body x)) \<Longrightarrow> propagates (for_each body xs)"
  by (induction xs) (simp_all add: propagates_ret propagates_bnd)

lemma propagates_with_no_grad: "propagates body \<Longrightarrow> propagates (with_no_grad body)"
  unfolding propagates_def with_no_grad_def
  apply (intro allI)
  subgoal for w
    apply (erule allE [of _ "w\<lparr>grad_enabled := False\<rparr>"])
    apply (auto split: prod.splits)
    done
  done

lemmas propagates_intros = propagates_ret propagates_raise propagates_gets propagates_fcall
  propagates_bnd propagates_for_each propagates_with_no_grad

lemma propagates_data_cell: "propagates (data_cell fw)"
  unfolding data_cell_def
  by (intro propagates_intros propagates_assign allI) simp_all

lemma propagates_net_cell: "propagates (net_cell fw)"
  unfolding net_cell_def
  by (intro propagates_intros propagates_assign allI) simp_all

lemma propagates_optimizer_cell: "propagates (optimizer_cell fw)"
  unfolding optimizer_cell_def
  by (intro propagates_intros propagates_assign allI) simp_all

lemma propagates_cuda_check_cell: "propagates (cuda_check_cell fw)"
  unfolding cuda_check_cell_def
  by (intro propagates_intros propagates_assign allI) simp_all

lemma propagates_device_cell: "propagates device_cell"
  unfolding device_cell_def
  by (intro propagates_assign) simp

lemma propagates_to_device_loop: "propagates (to_device_loop fw acc bs)"
  by (induction fw acc bs rule: to_device_loop.induct) (auto intro!: propagates_intros)

lemma propagates_transfer_cell: "propagates (transfer_cell fw)"
  unfolding transfer_cell_def
  by (intro propagates_intros propagates_to_device_loop propagates_assign allI) simp_all

lemma propagates_label_names: "propagates (label_names labels js)"
  by (induction labels js rule: label_names.induct) (auto intro!: propagates_intros)

lemma propagates_imshow: "propagates (imshow fw img)"
  unfolding imshow_def
  by (intro propagates_intros propagates_assign allI) simp_all

lemma propagates_imshow_cell: "propagates (imshow_cell fw)"
  unfolding imshow_cell_def
  by (auto intro!: propagates_intros propagates_assign propagates_imshow propagates_label_names
      split: list.splits)

lemma propagates_train_batch: "propagates (train_batch fw epoch ib)"
  unfolding train_batch_def
  by (auto intro!: propagates_intros propagates_assign split: prod.splits)

lemma propagates_train_cell: "propagates (train_cell fw)"
  unfolding train_cell_def train_epoch_def
  by (intro propagates_intros propagates_assign propagates_train_batch allI) simp_all

lemma propagates_eval_batch: "propagates (eval_batch fw b)"
  unfolding eval_batch_def
  by (auto intro!: propagates_intros propagates_assign split: prod.splits)

lemma propagates_eval_cell: "propagates (eval_cell fw)"
  unfolding eval_cell_def
  by (auto intro!: propagates_intros propagates_assign propagates_eval_batch split: prod.splits)

text \<open>
  C6.  No cell handles a failure.  In every cell of the notebook, from the cell that
  builds the datasets and loaders to the evaluation cell, whenever a call to the
  framework raises, that call is the last one the cell makes, and the cell ends with the
  very error the call raised.  (\<^verbatim>\<open>with torch.no_grad()\<close> restores the autograd mode and
  lets the error through.)
\<close>

theorem no_failure_handling:
  "propagates (data_cell fw) \<and> propagates (device_cell :: (('n, 'o, 'y, 'z) world, unit) exec)
   \<and> propagates (transfer_cell fw) \<and> propagates (imshow_cell fw)
   \<and> propagates (net_cell fw) \<and> propagates (optimizer_cell fw)
   \<and> propagates (cuda_check_cell fw)
   \<and> propagates (train_cell fw) \<and> propagates (eval_cell fw)"
  for fw :: "('n, 'o, 'y, 'z) framework"
  by (simp add: propagates_data_cell propagates_device_cell propagates_transfer_cell
      propagates_imshow_cell propagates_net_cell propagates_optimizer_cell
      propagates_cuda_check_cell propagates_train_cell propagates_eval_cell)

section \<open>Running the cells\<close>

lemmas run_simps = bnd_def ret_def raise_def gets_def assign_def fcall_def with_no_grad_def sbind_def

lemmas demo_simps = demo_framework_def demo_world_def demo_world_cuda_def demo_images_def
  demo_labels_def first_row_def

lemma upt_0_2: "[0..<2] = [0, 1]"
  by (simp add: upt_rec)

lemma bnd_InrE:
  assumes "bnd m f w = (w', Inr b)"
  obtains w1 a where "m w = (w1, Inr a)" "f a w1 = (w', Inr b)"
  using assms by (auto simp: bnd_def split: prod.splits sum.splits)

lemma demo_train_cpu:
  "train_cell demo_framework demo_world =
     (demo_world\<lparr>call_log := [(ZeroGrad, None), (NetCall (demo_images CPU), Some RuntimeError)]\<rparr>,
      Inl RuntimeError)"
  by (simp add: train_cell_def train_epoch_def train_batch_def run_simps demo_simps upt_0_2)

text \<open>
  The training cell on batches in host memory: the network, which lives on the
  accelerator, raises on the first batch, that call is the last one recorded, and the cell
  ends with its error.
\<close>

theorem no_failure_handling_witness:
  "snd (last (call_log (fst (train_cell demo_framework demo_world)))) = Some RuntimeError
   \<and> snd (train_cell demo_framework demo_world) = Inl RuntimeError"
proof -
  obtain w' r where run: "train_cell demo_framework demo_world = (w', r)"
    by (cases "train_cell demo_framework demo_world")
  have "propagates (train_cell demo_framework)"
    using no_failure_handling [of demo_framework] by simp
  from propagatesD [OF this run] obtain new
    where new: "call_log w' = call_log demo_world @ new" "propagated new r" by blast
  have log: "call_log w' = [(ZeroGrad, None), (NetCall (demo_images CPU), Some RuntimeError)]"
    using run by (auto simp: demo_train_cpu)
  from new log have "r = Inl RuntimeError"
    by (auto simp: demo_world_def propagated_def)
  with run log show ?thesis by simp
qed

section \<open>The batches after the transfer\<close>

lemma to_device_loop_cuda:
  "cuda_available fw \<Longrightarrow> py_device w = CUDA \<Longrightarrow>
   to_device_loop fw acc bs w =
     (w\<lparr>call_log := call_log w @ replicate (2 * length bs) (TensorTo CUDA, None)\<rparr>,
      Inr (acc @ map (\<lambda>(inputs, labels). (inputs\<lparr>device := CUDA\<rparr>, labels\<lparr>device := CUDA\<rparr>)) bs))"
proof (induction fw acc bs arbitrary: w rule: to_device_loop.induct)
  case (1 fw acc)
  then show ?case by (simp add: ret_def)
next
  case (2 fw acc inputs labels rest)
  let ?w2 = "w\<lparr>call_log := call_log w @ [(TensorTo CUDA, None), (TensorTo CUDA, None)]\<rparr>"
  have "to_device_loop fw acc ((inputs, labels) # rest) w =
      to_device_loop fw (acc @ [(inputs\<lparr>device := CUDA\<rparr>, labels\<lparr>device := CUDA\<rparr>)]) rest ?w2"
    using 2(2,3) by (simp add: run_simps tensor_to_def)
  also have "\<dots> = (?w2\<lparr>call_log := call_log ?w2 @ replicate (2 * length rest) (TensorTo CUDA, None)\<rparr>,
      Inr ((acc @ [(inputs\<lparr>device := CUDA\<rparr>, labels\<lparr>device := CUDA\<rparr>)]) @
           map (\<lambda>(inputs, labels). (inputs\<lparr>device := CUDA\<rparr>, labels\<lparr>device := CUDA\<rparr>)) rest))"
    using 2(2,3) by (intro 2(1)) simp_all
  finally show ?case by (simp add: replicate_app_Cons_same)
qed

lemma to_device_loop_no_cuda:
  "\<not> cuda_available fw \<Longrightarrow> py_device w = CUDA \<Longrightarrow>
   to_device_loop fw acc (b # rest) w =
     (w\<lparr>call_log := call_log w @ [(TensorTo CUDA, Some RuntimeError)]\<rparr>, Inl RuntimeError)"
  by (cases b) (simp add: run_simps tensor_to_def)

lemma transfer_cell_cuda:
  assumes "cuda_available fw"
  shows "transfer_cell fw (fst (device_cell w)) =
     (w\<lparr>py_device := CUDA,
        trainloader := map (\<lambda>(inputs, labels). (inputs\<lparr>device := CUDA\<rparr>, labels\<lparr>device := CUDA\<rparr>))
                         (trainloader w),
        testloader := map (\<lambda>(inputs, labels). (inputs\<lparr>device := CUDA\<rparr>, labels\<lparr>device := CUDA\<rparr>))
                        (testloader w),
        call_log := call_log w @
          replicate (2 * length (trainloader w) + 2 * length (testloader w)) (TensorTo CUDA, None)\<rparr>,
      Inr ())"
  using assms
  by (simp add: transfer_cell_def device_cell_def run_simps to_device_loop_cuda replicate_add)

lemma transfer_cell_no_cuda:
  assumes "\<not> cuda_available fw" and "transfer_cell fw (fst (device_cell w)) = (w', Inr ())"
  shows "trainloader w = [] \<and> testloader w = [] \<and> trainloader w' = [] \<and> testloader w' = []"
proof (cases "trainloader w")
  case (Cons b rest)
  with assms show ?thesis
    by (simp add: transfer_cell_def device_cell_def run_simps to_device_loop_no_cuda)
next
  case Nil
  note tr = this
  show ?thesis
  proof (cases "testloader w")
    case (Cons b rest)
    with assms tr show ?thesis
      by (simp add: transfer_cell_def device_cell_def run_simps to_device_loop_no_cuda)
  next
    case Nil
    with assms tr show ?thesis
      by (auto simp: transfer_cell_def device_cell_def run_simps)
  qed
qed

text \<open>
  C3.  On a machine with an accelerator the transfer cell, run after the cell that binds
  \<open>device\<close>, completes.  Whenever it completes, it has rebound \<open>trainloader\<close> and
  \<open>testloader\<close> to lists of the same length in which the batch at every position is
  the pair of the \<open>.to(device)\<close> images of the original batch at that position; every
  pair of either list, which are the lists the training and the evaluation loop iterate,
  resides on the accelerator.
\<close>

theorem batches_on_device:
  "(cuda_available fw \<longrightarrow> (\<exists>w1. transfer_cell fw (fst (device_cell w)) = (w1, Inr ())))
   \<and> (transfer_cell fw (fst (device_cell w)) = (w', Inr ()) \<longrightarrow>
       trainloader w' = map (\<lambda>(inputs, labels). (inputs\<lparr>device := CUDA\<rparr>, labels\<lparr>device := CUDA\<rparr>))
                            (trainloader w)
     \<and> testloader w' = map (\<lambda>(inputs, labels). (inputs\<lparr>device := CUDA\<rparr>, labels\<lparr>device := CUDA\<rparr>))
                           (testloader w)
     \<and> length (trainloader w') = length (trainloader w)
     \<and> length (testloader w') = length (testloader w)
     \<and> (\<forall>k < length (trainloader w).
           tensor_to fw (fst (trainloader w ! k)) CUDA = Inr (fst (trainloader w' ! k))
         \<and> tensor_to fw (snd (trainloader w ! k)) CUDA = Inr (snd (trainloader w' ! k)))
     \<and> (\<forall>k < length (testloader w).
           tensor_to fw (fst (testloader w ! k)) CUDA = Inr (fst (testloader w' ! k))
         \<and> tensor_to fw (snd (testloader w ! k)) CUDA = Inr (snd (testloader w' ! k)))
     \<and> (\<forall>(inputs, labels) \<in> set (trainloader w') \<union> set (testloader w').
           device inputs = CUDA \<and> device labels = CUDA))"
proof (cases "cuda_available fw")
  case True
  then show ?thesis
    by (auto simp: transfer_cell_cuda tensor_to_def split: prod.splits)
next
  case False
  then show ?thesis
    by (auto dest: transfer_cell_no_cuda)
qed

lemma demo_transfer:
  "transfer_cell demo_framework (fst (device_cell demo_world)) =
     (demo_world_cuda\<lparr>call_log := replicate 4 (TensorTo CUDA, None)\<rparr>, Inr ())"
  by (simp add: transfer_cell_def device_cell_def run_simps tensor_to_def demo_simps
      numeral_eq_Suc)

theorem batches_on_device_witness:
  "cuda_available demo_framework
   \<and> transfer_cell demo_framework (fst (device_cell demo_world)) =
       (demo_world_cuda\<lparr>call_log := replicate 4 (TensorTo CUDA, None)\<rparr>, Inr ())
   \<and> (\<exists>w1. transfer_cell demo_framework (fst (device_cell demo_world)) = (w1, Inr ()))
   \<and> trainloader (demo_world_cuda\<lparr>call_log := replicate 4 (TensorTo CUDA, None)\<rparr>) =
       [(demo_images CUDA, demo_labels CUDA)]
   \<and> testloader (demo_world_cuda\<lparr>call_log := replicate 4 (TensorTo CUDA, None)\<rparr>) =
       [(demo_images CUDA, demo_labels CUDA)]
   \<and> device (demo_images CUDA) = CUDA \<and> device (demo_labels CUDA) = CUDA"
proof -
  have a: "cuda_available demo_framework" by (simp add: demo_framework_def)
  note run = demo_transfer
  from batches_on_device [of demo_framework demo_world
      "demo_world_cuda\<lparr>call_log := replicate 4 (TensorTo CUDA, None)\<rparr>"] a run
  show ?thesis
    by (simp add: demo_simps)
qed

section \<open>The calls of the training loop\<close>

lemma train_batch_calls:
  assumes "train_batch fw epoch (i, b) w = (w', Inr u)"
  shows "\<exists>r. produced fw b r \<and> call_log w' = call_log w @ batch_calls b r
     \<and> trainloader w' = trainloader w"
  using assms
  by (cases b)
     (auto simp: train_batch_def run_simps batch_calls_def step_calls_def produced_def
           split: sum.splits prod.splits if_splits; blast)

lemma train_batches_calls:
  "for_each (train_batch fw epoch) (enumerate k bs) w = (w', Inr u) \<Longrightarrow>
   \<exists>rs. list_all2 (produced fw) bs rs
      \<and> call_log w' = call_log w @ concat (map2 batch_calls bs rs)
      \<and> trainloader w' = trainloader w"
proof (induction bs arbitrary: k w)
  case Nil
  then show ?case by (simp add: ret_def)
next
  case (Cons b bs)
  from Cons.prems obtain w1 a
    where first: "train_batch fw epoch (k, b) w = (w1, Inr a)"
      and rest: "for_each (train_batch fw epoch) (enumerate (Suc k) bs) w1 = (w', Inr u)"
    by (auto elim: bnd_InrE)
  from train_batch_calls [OF first] obtain r
    where r: "produced fw b r" "call_log w1 = call_log w @ batch_calls b r"
      "trainloader w1 = trainloader w"
    by blast
  from Cons.IH [OF rest] obtain rs
    where rs: "list_all2 (produced fw) bs rs"
      "call_log w' = call_log w1 @ concat (map2 batch_calls bs rs)"
      "trainloader w' = trainloader w1"
    by blast
  from r rs have "list_all2 (produced fw) (b # bs) (r # rs)
      \<and> call_log w' = call_log w @ concat (map2 batch_calls (b # bs) (r # rs))
      \<and> trainloader w' = trainloader w"
    by simp
  then show ?case by blast
qed

lemma train_epoch_calls:
  assumes "train_epoch fw epoch w = (w', Inr u)"
  shows "\<exists>rs. list_all2 (produced fw) (trainloader w) rs
      \<and> call_log w' = call_log w @ concat (map2 batch_calls (trainloader w) rs)
      \<and> trainloader w' = trainloader w"
proof -
  from assms have "for_each (train_batch fw epoch) (enumerate 0 (trainloader w))
      (w\<lparr>running_loss := 0\<rparr>) = (w', Inr u)"
    by (simp add: train_epoch_def run_simps)
  from train_batches_calls [OF this] show ?thesis by simp
qed

text \<open>
  C1, as the code has it.  A training cell that completes has made exactly the calls of
  two passes over the training loader, each pass taking the batches once and in order,
  and for every batch, in this order: zero the gradients, call the network on the
  inputs, compute the loss of the outputs it returned against the labels, run backward
  on that loss, take one optimizer step, and read the value of the loss.  No call
  raised, and the loader is left as it was.
\<close>

theorem train_cell_calls:
  assumes "train_cell fw w = (w', Inr ())"
  shows "\<exists>rs1 rs2. length rs1 = length (trainloader w) \<and> length rs2 = length (trainloader w)
      \<and> list_all2 (produced fw) (trainloader w) rs1
      \<and> list_all2 (produced fw) (trainloader w) rs2
      \<and> call_log w' = call_log w @ concat (map2 batch_calls (trainloader w) rs1)
                                  @ concat (map2 batch_calls (trainloader w) rs2)
      \<and> trainloader w' = trainloader w"
proof -
  from assms have "bnd (for_each (train_epoch fw) [0, 1])
      (\<lambda>_. assign (\<lambda>w. w\<lparr>stdout := stdout w @ [Text ''Finished Training'']\<rparr>)) w = (w', Inr ())"
    by (simp add: train_cell_def upt_0_2)
  then obtain w2 where
    epochs: "for_each (train_epoch fw) [0, 1] w = (w2, Inr ())"
    and fin: "w' = w2\<lparr>stdout := stdout w2 @ [Text ''Finished Training'']\<rparr>"
    by (rule bnd_InrE) (auto simp: assign_def)
  from epochs have "bnd (train_epoch fw 0) (\<lambda>_. for_each (train_epoch fw) [1]) w = (w2, Inr ())"
    by simp
  then obtain w1 where
    e1: "train_epoch fw 0 w = (w1, Inr ())"
    and "for_each (train_epoch fw) [1] w1 = (w2, Inr ())"
    by (rule bnd_InrE) auto
  then have "bnd (train_epoch fw 1) (\<lambda>_. ret ()) w1 = (w2, Inr ())"
    by simp
  then have e2: "train_epoch fw 1 w1 = (w2, Inr ())"
    by (rule bnd_InrE) (auto simp: ret_def)
  from train_epoch_calls [OF e1] obtain rs1 where
    rs1: "list_all2 (produced fw) (trainloader w) rs1"
      "call_log w1 = call_log w @ concat (map2 batch_calls (trainloader w) rs1)"
      "trainloader w1 = trainloader w"
    by blast
  from train_epoch_calls [OF e2] obtain rs2 where
    rs2: "list_all2 (produced fw) (trainloader w1) rs2"
      "call_log w2 = call_log w1 @ concat (map2 batch_calls (trainloader w1) rs2)"
      "trainloader w2 = trainloader w1"
    by blast
  from rs1 rs2 fin have "length rs1 = length (trainloader w) \<and> length rs2 = length (trainloader w)
      \<and> list_all2 (produced fw) (trainloader w) rs1
      \<and> list_all2 (produced fw) (trainloader w) rs2
      \<and> call_log w' = call_log w @ concat (map2 batch_calls (trainloader w) rs1)
                                  @ concat (map2 batch_calls (trainloader w) rs2)
      \<and> trainloader w' = trainloader w"
    by (simp add: list_all2_lengthD [symmetric])
  then show ?thesis by blast
qed

lemma demo_train_cuda:
  "train_cell demo_framework demo_world_cuda =
     (demo_world_cuda\<lparr>net := 2, optimizer := 2, running_loss := 4,
        stdout := [Text ''Finished Training''],
        call_log :=
          batch_calls (demo_images CUDA, demo_labels CUDA)
            (\<lparr>device = CUDA, dat = [[0.1, 0.9], [0.8, 0.2], [0.3, 0.7], [0.6, 0.4]]\<rparr>, 4) @
          batch_calls (demo_images CUDA, demo_labels CUDA)
            (\<lparr>device = CUDA, dat = [[0.1, 0.9], [0.8, 0.2], [0.3, 0.7], [0.6, 0.4]]\<rparr>, 4)\<rparr>,
      Inr ())"
  by (simp add: train_cell_def train_epoch_def train_batch_def run_simps demo_simps upt_0_2
      batch_calls_def step_calls_def)

theorem train_cell_calls_witness:
  "train_cell demo_framework demo_world_cuda = (fst (train_cell demo_framework demo_world_cuda), Inr ())
   \<and> (\<exists>rs1 rs2. length rs1 = 1 \<and> length rs2 = 1
      \<and> call_log (fst (train_cell demo_framework demo_world_cuda)) =
          concat (map2 batch_calls [(demo_images CUDA, demo_labels CUDA)] rs1)
          @ concat (map2 batch_calls [(demo_images CUDA, demo_labels CUDA)] rs2))"
proof -
  have run: "train_cell demo_framework demo_world_cuda =
      (fst (train_cell demo_framework demo_world_cuda), Inr ())"
    by (simp add: demo_train_cuda)
  from train_cell_calls [OF run] obtain rs1 rs2 where
    "length rs1 = length (trainloader demo_world_cuda)"
    "length rs2 = length (trainloader demo_world_cuda)"
    "call_log (fst (train_cell demo_framework demo_world_cuda)) =
       call_log demo_world_cuda @ concat (map2 batch_calls (trainloader demo_world_cuda) rs1)
         @ concat (map2 batch_calls (trainloader demo_world_cuda) rs2)"
    by blast
  then have "length rs1 = 1 \<and> length rs2 = 1
      \<and> call_log (fst (train_cell demo_framework demo_world_cuda)) =
          concat (map2 batch_calls [(demo_images CUDA, demo_labels CUDA)] rs1)
          @ concat (map2 batch_calls [(demo_images CUDA, demo_labels CUDA)] rs2)"
    by (simp add: demo_world_cuda_def demo_world_def)
  with run show ?thesis by blast
qed

text \<open>
  C1 as stated fails.  The calls of the training cell on a loader of one batch are six
  per pass, the sixth being the read of the loss value, so the record is not two times
  the five calls of the step.
\<close>

theorem train_cell_calls_counterexample:
  "map fst (call_log (fst (train_cell demo_framework demo_world_cuda))) =
     [ZeroGrad, NetCall (demo_images CUDA),
      Criterion \<lparr>device = CUDA, dat = [[0.1, 0.9], [0.8, 0.2], [0.3, 0.7], [0.6, 0.4]]\<rparr>
        (demo_labels CUDA),
      Backward 4, Step, Item 4,
      ZeroGrad, NetCall (demo_images CUDA),
      Criterion \<lparr>device = CUDA, dat = [[0.1, 0.9], [0.8, 0.2], [0.3, 0.7], [0.6, 0.4]]\<rparr>
        (demo_labels CUDA),
      Backward 4, Step, Item 4]
   \<and> call_log (fst (train_cell demo_framework demo_world_cuda)) \<noteq>
       step_calls (demo_images CUDA, demo_labels CUDA)
         (\<lparr>device = CUDA, dat = [[0.1, 0.9], [0.8, 0.2], [0.3, 0.7], [0.6, 0.4]]\<rparr>, 4) @
       step_calls (demo_images CUDA, demo_labels CUDA)
         (\<lparr>device = CUDA, dat = [[0.1, 0.9], [0.8, 0.2], [0.3, 0.7], [0.6, 0.4]]\<rparr>, 4)"
  by (simp add: demo_train_cuda batch_calls_def step_calls_def)

section \<open>Showing a batch that was moved to the device\<close>

text \<open>
  C5, where the code departs from it.  When the first batch of the training loader
  resides on the accelerator, as every batch does after the transfer cell, the cell that
  shows a batch does not complete: \<open>img.numpy()\<close> raises a \<open>TypeError\<close>, nothing is
  displayed and no label is printed.
\<close>

theorem imshow_cell_on_device:
  assumes "trainloader w = (images, labels) # rest"
    and "device images = CUDA"
    and "make_grid fw (dat images) = Inr grid"
  shows "imshow_cell fw w =
     (w\<lparr>call_log := call_log w @
          [(MakeGrid, None), (TensorDiv, None), (TensorAdd, None), (Numpy, Some TypeError)]\<rparr>,
      Inl TypeError)"
  using assms
  by (simp add: imshow_cell_def imshow_def torch_make_grid_def numpy_def tensor_add_def
      tensor_div_def run_simps)

text \<open>
  The two notebooks on the same batch: after the transfer the cell ends with the
  \<open>TypeError\<close>; on the batch in host memory it displays the image and prints the four
  class names.
\<close>

theorem imshow_cell_on_device_witness:
  "trainloader (fst (transfer_cell demo_framework (fst (device_cell demo_world)))) =
     (demo_images CUDA, demo_labels CUDA) # []
   \<and> device (demo_images CUDA) = CUDA
   \<and> make_grid demo_framework (dat (demo_images CUDA)) = Inr [[[0.1, 0.9]]]
   \<and> snd (imshow_cell demo_framework
            (fst (transfer_cell demo_framework (fst (device_cell demo_world))))) = Inl TypeError
   \<and> imshow_cell demo_framework demo_world =
       (demo_world\<lparr>figures := [[[[0.55], [0.95]]]],
          stdout := [Text ''  car   car   car plane''],
          call_log := [(MakeGrid, None), (TensorDiv, None), (TensorAdd, None), (Numpy, None),
            (NpTranspose, None), (PltImshow, None), (GetItem 0, None), (GetItem 1, None),
            (GetItem 2, None), (GetItem 3, None)]\<rparr>, Inr ())"
proof -
  let ?w = "fst (transfer_cell demo_framework (fst (device_cell demo_world)))"
  have a: "trainloader ?w = (demo_images CUDA, demo_labels CUDA) # []"
    by (simp add: demo_transfer demo_world_cuda_def)
  have b: "device (demo_images CUDA) = CUDA"
    by (simp add: demo_images_def)
  have c: "make_grid demo_framework (dat (demo_images CUDA)) = Inr [[[0.1, 0.9]]]"
    by (simp add: demo_simps)
  have d: "imshow_cell demo_framework demo_world =
       (demo_world\<lparr>figures := [[[[0.55], [0.95]]]],
          stdout := [Text ''  car   car   car plane''],
          call_log := [(MakeGrid, None), (TensorDiv, None), (TensorAdd, None), (Numpy, None),
            (NpTranspose, None), (PltImshow, None), (GetItem 0, None), (GetItem 1, None),
            (GetItem 2, None), (GetItem 3, None)]\<rparr>, Inr ())"
    by (simp add: imshow_cell_def imshow_def torch_make_grid_def numpy_def
        tensor_add_def tensor_div_def run_simps demo_simps classes_def upt_rec
        np_transpose_120_def pad5_def eval_nat_numeral)
  from imshow_cell_on_device [OF a b c] a b c d show ?thesis by simp
qed

section \<open>The evaluation loop\<close>

lemma is_first_max_Cons_Suc:
  "x < ys ! j \<Longrightarrow> is_first_max ys j \<Longrightarrow> is_first_max (x # ys) (Suc j)"
  unfolding is_first_max_def
proof (intro conjI allI impI)
  assume a: "x < ys ! j" and b: "j < length ys \<and> (\<forall>k<length ys. ys ! k \<le> ys ! j) \<and> (\<forall>k<j. ys ! k < ys ! j)"
  from b show "Suc j < length (x # ys)" by simp
  fix k
  { assume "k < length (x # ys)"
    with a b show "(x # ys) ! k \<le> (x # ys) ! Suc j" by (cases k) auto }
  { assume "k < Suc j"
    with a b show "(x # ys) ! k < (x # ys) ! Suc j" by (cases k) auto }
qed

lemma is_first_max_Cons_0:
  "\<not> x < ys ! j \<Longrightarrow> is_first_max ys j \<Longrightarrow> is_first_max (x # ys) 0"
  unfolding is_first_max_def
proof (intro conjI allI impI)
  assume a: "\<not> x < ys ! j" and b: "j < length ys \<and> (\<forall>k<length ys. ys ! k \<le> ys ! j) \<and> (\<forall>k<j. ys ! k < ys ! j)"
  show "0 < length (x # ys)" by simp
  fix k
  { assume k: "k < length (x # ys)"
    show "(x # ys) ! k \<le> (x # ys) ! 0"
    proof (cases k)
      case 0
      then show ?thesis by simp
    next
      case (Suc k')
      with k b have "ys ! k' \<le> ys ! j" by simp
      with a Suc show ?thesis by simp
    qed }
  { assume "k < (0::nat)"
    then show "(x # ys) ! k < (x # ys) ! 0" by simp }
qed

lemma is_first_max_argmax: "row \<noteq> [] \<Longrightarrow> is_first_max row (argmax row)"
proof (induction row rule: argmax.induct)
  case 1
  then show ?case by simp
next
  case (2 x)
  then show ?case by (simp add: is_first_max_def)
next
  case (3 x y ys)
  then have ih: "is_first_max (y # ys) (argmax (y # ys))" by simp
  show ?case
  proof (cases "x < (y # ys) ! argmax (y # ys)")
    case True
    from is_first_max_Cons_Suc [OF True ih] True show ?thesis
      by (simp add: Let_def)
  next
    case False
    from is_first_max_Cons_0 [OF False ih] False show ?thesis
      by (simp add: Let_def)
  qed
qed

lemma is_first_max_unique:
  assumes i: "is_first_max row i" and j: "is_first_max row j"
  shows "i = j"
proof (rule ccontr)
  assume "i \<noteq> j"
  then consider "i < j" | "j < i" by linarith
  then show False
  proof cases
    case 1
    with j have "row ! i < row ! j" by (simp add: is_first_max_def)
    moreover from i j have "row ! j \<le> row ! i" by (simp add: is_first_max_def)
    ultimately show False by simp
  next
    case 2
    with i have "row ! j < row ! i" by (simp add: is_first_max_def)
    moreover from i j have "row ! i \<le> row ! j" by (simp add: is_first_max_def)
    ultimately show False by simp
  qed
qed

lemma argmax_iff: "row \<noteq> [] \<Longrightarrow> argmax row = i \<longleftrightarrow> is_first_max row i"
  using is_first_max_argmax is_first_max_unique by blast

lemma count_hits:
  "length (filter (\<lambda>(x, y). x = y) (zip (map argmax rows) labs)) =
   length (filter (\<lambda>(row, lab). argmax row = lab) (zip rows labs))"
proof (induction rows arbitrary: labs)
  case Nil
  then show ?case by simp
next
  case (Cons row rows)
  then show ?case by (cases labs) simp_all
qed

lemma eval_batch_served_well:
  assumes sw: "served_well fw (net w) (images, labels)" and ng: "grad_enabled w = False"
  shows "eval_batch fw (images, labels) w =
     (w\<lparr>total_n := total_n w + length (dat labels),
        correct := correct w + length (filter (\<lambda>(row, lab). argmax row = lab)
                     (zip (dat (model_logits fw (net w) images)) (dat labels))),
        call_log := call_log w @
          [(NetCall images, None), (TorchMax (model_logits fw (net w) images), None),
           (Size labels, None), (TensorEq, None), (TensorSum, None), (SumItem, None)]\<rparr>,
      Inr ())"
proof -
  from sw obtain y where y: "net_call fw False (net w) images = Inr y"
    and len: "length (dat (data fw y)) = length (dat labels)"
    and dev: "device (data fw y) = device labels"
    and rows: "\<not> list_ex (\<lambda>row. row = []) (dat (data fw y))"
    by (auto simp: served_well_def split: sum.splits)
  have ml: "model_logits fw (net w) images = data fw y"
    by (simp add: model_logits_def y)
  have tm: "torch_max (data fw y) =
      Inr (\<lparr>device = device labels, dat = map (\<lambda>row. row ! argmax row) (dat (data fw y))\<rparr>,
           \<lparr>device = device labels, dat = map argmax (dat (data fw y))\<rparr>)"
    using rows dev by (simp add: torch_max_def)
  have te: "tensor_eq \<lparr>device = device labels, dat = map argmax (dat (data fw y))\<rparr> labels =
      Inr \<lparr>device = device labels,
           dat = map (\<lambda>(x, y). x = y) (zip (map argmax (dat (data fw y))) (dat labels))\<rparr>"
    using len by (simp add: tensor_eq_def)
  show ?thesis
    unfolding eval_batch_def ml
    by (simp add: run_simps y ng tm te tensor_sum_def count_hits)
qed

lemma eval_loop_served_well:
  assumes "grad_enabled w = False" and "list_all (served_well fw (net w)) bs"
  shows "for_each (eval_batch fw) bs w =
     (w\<lparr>total_n := total_n w + sum_list (map (\<lambda>(images, labels). length (dat labels)) bs),
        correct := correct w + length (filter (\<lambda>(row, lab). argmax row = lab)
                     (test_samples fw (net w) bs)),
        call_log := call_log w @ concat (map (\<lambda>(images, labels).
          [(NetCall images, None), (TorchMax (model_logits fw (net w) images), None),
           (Size labels, None), (TensorEq, None), (TensorSum, None), (SumItem, None)]) bs)\<rparr>,
      Inr ())"
  using assms
proof (induction bs arbitrary: w)
  case Nil
  then show ?case by (simp add: ret_def test_samples_def)
next
  case (Cons b bs)
  obtain images labels where b: "b = (images, labels)" by (cases b)
  let ?w1 = "w\<lparr>total_n := total_n w + length (dat labels),
        correct := correct w + length (filter (\<lambda>(row, lab). argmax row = lab)
                     (zip (dat (model_logits fw (net w) images)) (dat labels))),
        call_log := call_log w @
          [(NetCall images, None), (TorchMax (model_logits fw (net w) images), None),
           (Size labels, None), (TensorEq, None), (TensorSum, None), (SumItem, None)]\<rparr>"
  from Cons.prems b have first: "eval_batch fw b w = (?w1, Inr ())"
    by (simp add: eval_batch_served_well)
  from Cons.prems have "grad_enabled ?w1 = False" "list_all (served_well fw (net ?w1)) bs"
    by simp_all
  from Cons.IH [OF this] first b show ?case
    by (simp add: bnd_def test_samples_def)
qed

lemma served_well_rows:
  assumes "list_all (served_well fw n) bs" and "(row, lab) \<in> set (test_samples fw n bs)"
  shows "row \<noteq> []"
proof -
  from assms(2) obtain images labels where b: "(images, labels) \<in> set bs"
    and z: "(row, lab) \<in> set (zip (dat (model_logits fw n images)) (dat labels))"
    by (auto simp: test_samples_def)
  from assms(1) b have "served_well fw n (images, labels)"
    by (simp add: list_all_iff)
  then have "\<not> list_ex (\<lambda>row. row = []) (dat (model_logits fw n images))"
    by (auto simp: served_well_def model_logits_def split: sum.splits)
  moreover from z have "row \<in> set (dat (model_logits fw n images))"
    by (rule set_zip_leftD)
  ultimately show ?thesis by (auto simp: list_ex_iff)
qed

lemma served_well_length:
  "list_all (served_well fw n) bs \<Longrightarrow>
   length (test_samples fw n bs) = sum_list (map (\<lambda>(images, labels). length (dat labels)) bs)"
  by (induction bs)
     (auto simp: test_samples_def served_well_def model_logits_def split: sum.splits)

text \<open>
  C2.  When every batch of the test loader is served well and the loader holds at least
  one label, the evaluation cell completes; \<open>total\<close> is the number of labels of all
  batches, each batch counted once, which is the number of test samples; \<open>correct\<close>
  is the number of test samples whose label is the index of the maximum of their
  logits; and the cell prints \<open>100 * correct / total\<close>, as \<open>%d\<close> formats it.
\<close>

theorem test_accuracy:
  assumes sw: "list_all (served_well fw (net w)) (testloader w)"
    and some: "0 < sum_list (map (\<lambda>(images, labels). length (dat labels)) (testloader w))"
  shows "\<exists>w'. eval_cell fw w = (w', Inr ())
     \<and> total_n w' = sum_list (map (\<lambda>(images, labels). length (dat labels)) (testloader w))
     \<and> total_n w' = length (test_samples fw (net w) (testloader w))
     \<and> correct w' = length (filter (\<lambda>(row, label). is_first_max row label)
                        (test_samples fw (net w) (testloader w)))
     \<and> stdout w' = stdout w @ [AccuracyLine \<lfloor>100 * real (correct w') / real (total_n w')\<rfloor>]"
proof -
  let ?w0 = "w\<lparr>correct := 0, total_n := 0, grad_enabled := False\<rparr>"
  have hits: "filter (\<lambda>(row, lab). argmax row = lab) (test_samples fw (net w) (testloader w)) =
      filter (\<lambda>(row, label). is_first_max row label) (test_samples fw (net w) (testloader w))"
  proof (rule filter_cong [OF refl])
    fix x
    assume x: "x \<in> set (test_samples fw (net w) (testloader w))"
    obtain row lab where rl: "x = (row, lab)" by (cases x)
    with x have "row \<noteq> []" by (auto dest: served_well_rows [OF sw])
    with rl show "(case x of (row, lab) \<Rightarrow> argmax row = lab) =
        (case x of (row, label) \<Rightarrow> is_first_max row label)"
      by (simp add: argmax_iff)
  qed
  from sw have "grad_enabled ?w0 = False" "list_all (served_well fw (net ?w0)) (testloader w)"
    by simp_all
  note loop = eval_loop_served_well [OF this]
  from some have nz: "sum_list (map (\<lambda>(images, labels). length (dat labels)) (testloader w)) \<noteq> 0"
    by (simp del: sum_list_eq_0_iff)
  from loop nz hits served_well_length [OF sw] show ?thesis
    by (simp add: eval_cell_def run_simps del: sum_list_eq_0_iff)
qed

theorem test_accuracy_witness:
  "list_all (served_well demo_framework (net demo_world_cuda)) (testloader demo_world_cuda)
   \<and> 0 < sum_list (map (\<lambda>(images, labels). length (dat labels)) (testloader demo_world_cuda))
   \<and> (\<exists>w'. eval_cell demo_framework demo_world_cuda = (w', Inr ())
        \<and> total_n w' = 4 \<and> correct w' = 3 \<and> stdout w' = [AccuracyLine 75])"
proof -
  have a: "list_all (served_well demo_framework (net demo_world_cuda)) (testloader demo_world_cuda)"
    by (simp add: served_well_def demo_simps)
  have b: "0 < sum_list (map (\<lambda>(images, labels). length (dat labels)) (testloader demo_world_cuda))"
    by (simp add: demo_simps)
  have s: "test_samples demo_framework (net demo_world_cuda) (testloader demo_world_cuda) =
      [([0.1, 0.9], 1), ([0.8, 0.2], 1), ([0.3, 0.7], 1), ([0.6, 0.4], 0)]"
    by (simp add: test_samples_def model_logits_def demo_simps)
  have c: "length (filter (\<lambda>(row, label). is_first_max row label)
      [([0.1, 0.9], 1), ([0.8, 0.2], 1), ([0.3, 0.7], 1), ([0.6, 0.4], 0 :: nat)]) = 3"
    by (simp add: argmax_iff [symmetric])
  from test_accuracy [OF a b] obtain w' where
    "eval_cell demo_framework demo_world_cuda = (w', Inr ())"
    "total_n w' = sum_list (map (\<lambda>(images, labels). length (dat labels)) (testloader demo_world_cuda))"
    "correct w' = length (filter (\<lambda>(row, label). is_first_max row label)
        (test_samples demo_framework (net demo_world_cuda) (testloader demo_world_cuda)))"
    "stdout w' = stdout demo_world_cuda @ [AccuracyLine \<lfloor>100 * real (correct w') / real (total_n w')\<rfloor>]"
    by blast
  then have "eval_cell demo_framework demo_world_cuda = (w', Inr ())
      \<and> total_n w' = 4 \<and> correct w' = 3 \<and> stdout w' = [AccuracyLine 75]"
    unfolding s c by (simp add: demo_simps)
  with a b show ?thesis by blast
qed

lemma eval_batch_frame:
  assumes "eval_batch fw b w = (w', r)"
  shows "net w' = net w \<and> optimizer w' = optimizer w \<and> grad_enabled w' = grad_enabled w
     \<and> (\<exists>new. call_log w' = call_log w @ new \<and> filter is_update (map fst new) = [])"
  using assms
  by (cases b) (auto simp: eval_batch_def run_simps split: sum.splits prod.splits)

lemma eval_loop_frame:
  "for_each (eval_batch fw) bs w = (w', r) \<Longrightarrow>
   net w' = net w \<and> optimizer w' = optimizer w \<and> grad_enabled w' = grad_enabled w
     \<and> (\<exists>new. call_log w' = call_log w @ new \<and> filter is_update (map fst new) = [])"
proof (induction bs arbitrary: w)
  case Nil
  then show ?case by (simp add: ret_def)
next
  case (Cons b bs)
  obtain w1 r1 where first: "eval_batch fw b w = (w1, r1)" by (cases "eval_batch fw b w")
  note f1 = eval_batch_frame [OF first]
  show ?case
  proof (cases r1)
    case (Inl e)
    with Cons.prems first have "w' = w1" by (simp add: bnd_def)
    with f1 show ?thesis by simp
  next
    case (Inr u)
    with Cons.prems first have "for_each (eval_batch fw) bs w1 = (w', r)" by (simp add: bnd_def)
    from Cons.IH [OF this] f1 show ?thesis by auto
  qed
qed

lemma eval_batch_no_grad:
  "grad_enabled w = False \<Longrightarrow>
   eval_batch (fw\<lparr>net_call := \<lambda>g. net_call fw False\<rparr>) b w = eval_batch fw b w"
  by (cases b) (simp add: eval_batch_def run_simps)

lemma eval_loop_no_grad:
  "grad_enabled w = False \<Longrightarrow>
   for_each (eval_batch (fw\<lparr>net_call := \<lambda>g. net_call fw False\<rparr>)) bs w =
   for_each (eval_batch fw) bs w"
proof (induction bs arbitrary: w)
  case Nil
  then show ?case by simp
next
  case (Cons b bs)
  obtain w1 r1 where first: "eval_batch fw b w = (w1, r1)" by (cases "eval_batch fw b w")
  with Cons.prems have "grad_enabled w1 = False" by (auto dest: eval_batch_frame)
  with Cons.IH first Cons.prems show ?case
    by (simp add: bnd_def eval_batch_no_grad split: sum.splits)
qed

text \<open>
  C9.  The evaluation cell, however it ends, leaves the network and the optimizer as
  they were and restores the autograd mode; none of the calls it makes zeroes the
  gradients, runs backward or takes an optimizer step; and every call of the network
  runs with autograd off: the cell behaves the same with a network that ignores the mode.
\<close>

theorem eval_cell_frame:
  "net (fst (eval_cell fw w)) = net w
   \<and> optimizer (fst (eval_cell fw w)) = optimizer w
   \<and> grad_enabled (fst (eval_cell fw w)) = grad_enabled w
   \<and> filter is_update (map fst (drop (length (call_log w)) (call_log (fst (eval_cell fw w))))) = []
   \<and> eval_cell (fw\<lparr>net_call := \<lambda>g. net_call fw False\<rparr>) w = eval_cell fw w"
proof -
  let ?w0 = "w\<lparr>correct := 0, total_n := 0, grad_enabled := False\<rparr>"
  obtain w1 r1 where loop: "for_each (eval_batch fw) (testloader w) ?w0 = (w1, r1)"
    by (cases "for_each (eval_batch fw) (testloader w) ?w0")
  from eval_loop_frame [OF loop] obtain new where
    f: "net w1 = net w" "optimizer w1 = optimizer w" "call_log w1 = call_log w @ new"
      "filter is_update (map fst new) = []"
    by auto
  have ng: "for_each (eval_batch (fw\<lparr>net_call := \<lambda>g. net_call fw False\<rparr>)) (testloader w) ?w0 =
      for_each (eval_batch fw) (testloader w) ?w0"
    by (rule eval_loop_no_grad) simp
  have same: "eval_cell (fw\<lparr>net_call := \<lambda>g. net_call fw False\<rparr>) w = eval_cell fw w"
    by (simp add: eval_cell_def run_simps ng)
  from loop f have "net (fst (eval_cell fw w)) = net w
   \<and> optimizer (fst (eval_cell fw w)) = optimizer w
   \<and> grad_enabled (fst (eval_cell fw w)) = grad_enabled w
   \<and> filter is_update (map fst (drop (length (call_log w)) (call_log (fst (eval_cell fw w))))) = []"
    by (cases r1) (simp_all add: eval_cell_def run_simps)
  with same show ?thesis by simp
qed

end
